theory Spec2Isabelle
  imports Main "HOL-Library.Word"
begin

unbundle bit_operations_syntax

section \<open>Data model\<close>

text \<open>
  The repository holds three variants of one Go program (package \<open>main\<close>): the root
  \<open>main.go\<close>, and two further files whose names are unknown (\<open>part_000\<close>,
  \<open>part_001\<close>). \<open>part_001\<close> is the variant with a routes list, a protocol switch
  and validated API keys; its functions keep their Go names here. Functions of the other
  two variants that are modelled carry the suffix \<open>_main_go\<close> or \<open>_part_000\<close>.

  Go strings are byte strings: \<open>string\<close>. A Go \<open>error\<close> is modelled by its message.
  \<open>log.Fatalf\<close> ends the process (exit status 1, deferred calls do not run) and a failed
  index check panics: both are values of \<open>failure\<close>. Log lines other than the fatal
  message are not modelled.
\<close>

type_synonym error = string

datatype failure = Fatal string | Panic string

record DNSRecord =
  ID :: string
  Type :: string
  Name :: string
  Value :: string

record TunnelCredentials =
  AccountTag :: string
  TunnelSecret :: string
  TunnelID :: string

record APIKeys =
  ApiToken :: string
  ZoneID :: string

record Route =
  Hostname :: string
  Service :: string

text \<open>The anonymous struct that \<open>dnsRecordExists\<close> decodes the lookup's response into.\<close>

record DNSQuery =
  Success :: bool
  Result :: "DNSRecord list"

section \<open>The world outside the program\<close>

text \<open>
  A path of the file system is in one of four states: \<open>Missing\<close> (no such file, its
  directory exists), \<open>File data mode\<close> (a regular file the process can open, with its
  content and permission bits), \<open>NoDir\<close> (a directory of the path does not exist) and
  \<open>Blocked msg\<close> (the path exists and opening it fails with the operating system's
  message \<open>msg\<close>: permission denied, is a directory).
\<close>

datatype node = Missing | File string "32 word" | NoDir | Blocked string

record request =
  Method :: string
  URL :: string
  Authorization :: string
  ContentType :: string
  Body :: string

record response =
  StatusCode :: int
  RespBody :: string

text \<open>
  What the program does to the outside, in order: \<open>Exec argv\<close> is a subprocess run to
  its end (\<open>cmd.Run\<close>), \<open>Start argv\<close> a subprocess started (\<open>cmd.Start\<close>),
  \<open>Request r\<close> an HTTP request handed to \<open>http.Client.Do\<close>, \<open>Socks5 port\<close> the
  local SOCKS5 listener.
\<close>

datatype event = Exec "string list" | Start "string list" | Request request | Socks5 int

text \<open>
  The state a run works on: the files, the process's umask, the state of the remote DNS
  zone (of any type \<open>'z\<close>) and the trace of external calls made so far, oldest first.
\<close>

record 'z world =
  files :: "string \<Rightarrow> node"
  umask :: "32 word"
  zone :: 'z
  trace :: "event list"

text \<open>An \<open>*os.PathError\<close>'s message, as \<open>os.ReadFile\<close> and \<open>os.Create\<close> return it.\<close>

definition pathError :: "string \<Rightarrow> string \<Rightarrow> string \<Rightarrow> error" where
  "pathError op path msg = op @ '' '' @ path @ '': '' @ msg"

definition os_ReadFile :: "'z world \<Rightarrow> string \<Rightarrow> error + string" where
  "os_ReadFile w path =
     (case files w path of
        File d m \<Rightarrow> Inr d
      | Missing \<Rightarrow> Inl (pathError ''open'' path ''no such file or directory'')
      | NoDir \<Rightarrow> Inl (pathError ''open'' path ''no such file or directory'')
      | Blocked msg \<Rightarrow>
          Inl (pathError (if msg = ''is a directory'' then ''read'' else ''open'') path msg))"

text \<open>
  (A directory opens for reading, and it is the read that fails: \<open>os.ReadFile\<close>
  reports \<open>read <path>: is a directory\<close>, \<open>os.Create\<close> and \<open>os.WriteFile\<close>
  report \<open>open <path>: is a directory\<close>.)
\<close>

text \<open>
  \<open>os.Create\<close> opens with \<open>O_RDWR|O_CREATE|O_TRUNC\<close> and mode 0666 (438): an existing
  file is emptied and keeps its mode, a missing one is created with the mode less the
  umask's bits. The handle is the path.
\<close>

definition os_Create :: "'z world \<Rightarrow> string \<Rightarrow> error + 'z world" where
  "os_Create w path =
     (case files w path of
        File d m \<Rightarrow> Inr (w\<lparr>files := (files w)(path := File [] m)\<rparr>)
      | Missing \<Rightarrow> Inr (w\<lparr>files := (files w)(path := File [] (438 AND NOT (umask w)))\<rparr>)
      | NoDir \<Rightarrow> Inl (pathError ''open'' path ''no such file or directory'')
      | Blocked msg \<Rightarrow> Inl (pathError ''open'' path msg))"

text \<open>
  \<open>os.WriteFile name data perm\<close>: "If the file does not exist, WriteFile creates it with
  permissions perm (before umask); otherwise WriteFile truncates it before writing,
  without changing permissions."
\<close>

definition os_WriteFile :: "'z world \<Rightarrow> string \<Rightarrow> string \<Rightarrow> 32 word \<Rightarrow> 'z world \<times> error option" where
  "os_WriteFile w path d perm =
     (case files w path of
        File old m \<Rightarrow> (w\<lparr>files := (files w)(path := File d m)\<rparr>, None)
      | Missing \<Rightarrow> (w\<lparr>files := (files w)(path := File d (perm AND NOT (umask w)))\<rparr>, None)
      | NoDir \<Rightarrow> (w, Some (pathError ''open'' path ''no such file or directory''))
      | Blocked msg \<Rightarrow> (w, Some (pathError ''open'' path msg)))"

text \<open>
  \<open>fmt.Fprintf\<close> and \<open>fmt.Fprintln\<close> on the open file, with the text already
  formatted: the bytes are appended. The program drops what they return.
\<close>

definition Fprint :: "'z world \<Rightarrow> string \<Rightarrow> string \<Rightarrow> 'z world" where
  "Fprint w path s =
     (case files w path of
        File d m \<Rightarrow> w\<lparr>files := (files w)(path := File (d @ s) m)\<rparr>
      | Missing \<Rightarrow> w
      | NoDir \<Rightarrow> w
      | Blocked msg \<Rightarrow> w)"

text \<open>\<open>strings.HasPrefix s prefix\<close>: \<open>len(s) >= len(prefix) && s[:len(prefix)] == prefix\<close>.\<close>

definition HasPrefix :: "string \<Rightarrow> string \<Rightarrow> bool" where
  "HasPrefix s pre = (length pre \<le> length s \<and> take (length pre) s = pre)"

section \<open>The ingress config writer (part_001)\<close>

text \<open>The loop \<open>for _, r := range routes\<close> of \<open>writeConfigFile\<close>: two lines per route.\<close>

fun write_route_blocks :: "'z world \<Rightarrow> string \<Rightarrow> Route list \<Rightarrow> 'z world" where
  "write_route_blocks w path [] = w"
| "write_route_blocks w path (r # rs) =
     write_route_blocks
       (Fprint (Fprint w path (''  - hostname: '' @ Hostname r @ ''\<newline>''))
          path (''    service: '' @ Service r @ ''\<newline>''))
       path rs"

text \<open>
  \<open>writeConfigFile\<close> of part_001. The file is created and the three header lines and
  the route blocks are written before \<open>routes[0]\<close> is read; on an empty list that read
  panics, after those writes and before the fallback line.
\<close>

definition writeConfigFile ::
  "'z world \<Rightarrow> string \<Rightarrow> string \<Rightarrow> Route list \<Rightarrow> 'z world \<times> (failure + string)" where
  "writeConfigFile w tunnelID credentialsPath routes =
     (let configPath = ''./'' @ tunnelID @ ''-config.yml'' in
      (case os_Create w configPath of
         Inl err \<Rightarrow> (w, Inl (Fatal (''Failed to create config file: '' @ err)))
       | Inr w0 \<Rightarrow>
          (let w1 = Fprint w0 configPath (''tunnel: '' @ tunnelID @ ''\<newline>'');
               w2 = Fprint w1 configPath (''credentials-file: '' @ credentialsPath @ ''\<newline>'');
               w3 = Fprint w2 configPath ''ingress:\<newline>'';
               w4 = write_route_blocks w3 configPath routes
           in (case routes of
                 [] \<Rightarrow> (w4, Inl (Panic ''runtime error: index out of range [0] with length 0''))
               | r0 # rest \<Rightarrow>
                  (let fallback =
                         (if HasPrefix (Service r0) ''http://'' \<or> HasPrefix (Service r0) ''https://''
                          then ''http_status:404'' else ''tcp://localhost:0'');
                       w5 = Fprint w4 configPath (''  - service: '' @ fallback @ ''\<newline>'')
                   in (w5, Inr configPath))))))"

section \<open>Libraries and external collaborators\<close>

text \<open>
  What the program calls and does not define is a parameter of the model. \<open>roundtrip\<close>
  is \<open>http.Client.Do\<close> against the DNS API: from the zone's state and the request to the
  new state and either a transport error or the final response. \<open>url_error\<close> is the
  verdict of \<open>http.NewRequest\<close> on a URL (\<open>None\<close>: well-formed). \<open>run_cmd\<close> is a
  subprocess run to its end on the files (\<open>None\<close>: exit status 0) and \<open>start_cmd\<close> the
  start of one. \<open>socks5_error\<close> is what \<open>socks5.New\<close> returns. \<open>json_string\<close> is
  \<open>encoding/json\<close>'s encoding of a string as a JSON string literal, and the three
  \<open>unmarshal\<close> fields are \<open>json.Unmarshal\<close> into the three struct types: a key that
  the document lacks leaves its field at the zero value, the empty string.
\<close>

record 'z env =
  roundtrip :: "'z \<Rightarrow> request \<Rightarrow> 'z \<times> (error + response)"
  url_error :: "string \<Rightarrow> error option"
  run_cmd :: "string list \<Rightarrow> (string \<Rightarrow> node) \<Rightarrow> (string \<Rightarrow> node) \<times> error option"
  start_cmd :: "string list \<Rightarrow> error option"
  socks5_error :: "error option"
  json_string :: "string \<Rightarrow> string"
  unmarshal_APIKeys :: "string \<Rightarrow> error + APIKeys"
  unmarshal_TunnelCredentials :: "string \<Rightarrow> error + TunnelCredentials"
  unmarshal_DNSQuery :: "string \<Rightarrow> error + DNSQuery"

text \<open>\<open>json.Marshal\<close> of a \<open>DNSRecord\<close>: the fields in declaration order, under their tags.\<close>

definition json_Marshal_DNSRecord :: "'z env \<Rightarrow> DNSRecord \<Rightarrow> string" where
  \<open>json_Marshal_DNSRecord E r =
     ''{"id":'' @ json_string E (ID r) @ '',"type":'' @ json_string E (Type r) @
     '',"name":'' @ json_string E (Name r) @ '',"content":'' @ json_string E (Value r) @ ''}''\<close>

text \<open>
  \<open>json.MarshalIndent(creds, "", "  ")\<close>: one field per line in declaration order,
  indented by two spaces, no newline after the closing brace. Neither call can fail on a
  struct of strings, so the branches on their errors are dead and left out.
\<close>

definition json_MarshalIndent_TunnelCredentials :: "'z env \<Rightarrow> TunnelCredentials \<Rightarrow> string" where
  \<open>json_MarshalIndent_TunnelCredentials E c =
     ''{\<newline>  "AccountTag": '' @ json_string E (AccountTag c) @
     '',\<newline>  "TunnelSecret": '' @ json_string E (TunnelSecret c) @
     '',\<newline>  "TunnelID": '' @ json_string E (TunnelID c) @ ''\<newline>}''\<close>

text \<open>The verb \<open>%d\<close> of \<open>fmt\<close> on an \<open>int\<close>: decimal digits, a minus sign when negative.\<close>

function decimal :: "nat \<Rightarrow> string" where
  "decimal n = (if n < 10 then [''0123456789'' ! n] else decimal (n div 10) @ [''0123456789'' ! (n mod 10)])"
  by pat_completeness auto
termination
  by (relation "measure id") auto

declare decimal.simps [simp del]

definition fmt_d :: "int \<Rightarrow> string" where
  "fmt_d i = (if i < 0 then ''-'' @ decimal (nat (- i)) else decimal (nat i))"

section \<open>Key and credential stores (part_001)\<close>

definition loadAPIKeys :: "'z env \<Rightarrow> 'z world \<Rightarrow> string \<Rightarrow> error + APIKeys" where
  "loadAPIKeys E w filePath =
     (case os_ReadFile w filePath of
        Inl err \<Rightarrow> Inl (''failed to read API keys file: '' @ err)
      | Inr d \<Rightarrow>
         (case unmarshal_APIKeys E d of
            Inl err \<Rightarrow> Inl (''failed to unmarshal API keys: '' @ err)
          | Inr keys \<Rightarrow>
             if ApiToken keys = [] \<or> ZoneID keys = []
             then Inl ''ApiToken or ZoneId missing in API keys file''
             else Inr keys))"

definition loadCredentials :: "'z env \<Rightarrow> 'z world \<Rightarrow> string \<Rightarrow> error + TunnelCredentials" where
  "loadCredentials E w filePath =
     (case os_ReadFile w filePath of
        Inl err \<Rightarrow> Inl (''failed to read credentials file: '' @ err)
      | Inr d \<Rightarrow>
         (case unmarshal_TunnelCredentials E d of
            Inl err \<Rightarrow> Inl (''failed to unmarshal credentials: '' @ err)
          | Inr creds \<Rightarrow> Inr creds))"

text \<open>\<open>saveCredentials\<close>: the permission argument \<open>0600\<close> is 384.\<close>

definition saveCredentials ::
  "'z env \<Rightarrow> 'z world \<Rightarrow> string \<Rightarrow> TunnelCredentials \<Rightarrow> 'z world \<times> error option" where
  "saveCredentials E w filePath creds =
     os_WriteFile w filePath (json_MarshalIndent_TunnelCredentials E creds) 384"

section \<open>Tunnel provisioner and process supervisor (part_001)\<close>

definition authenticateCloudflare :: "'z env \<Rightarrow> 'z world \<Rightarrow> 'z world \<times> (failure + unit)" where
  "authenticateCloudflare E w =
     (let argv = [''cloudflared'', ''tunnel'', ''login''];
          (fs, r) = run_cmd E argv (files w);
          w1 = w\<lparr>files := fs, trace := trace w @ [Exec argv]\<rparr>
      in (case r of
            Some err \<Rightarrow> (w1, Inl (Fatal (''Cloudflare authentication failed: '' @ err)))
          | None \<Rightarrow> (w1, Inr ())))"

definition createTunnel ::
  "'z env \<Rightarrow> 'z world \<Rightarrow> string \<Rightarrow> string \<Rightarrow> 'z world \<times> (failure + TunnelCredentials)" where
  "createTunnel E w tunnelName credentialsPath =
     (let argv = [''cloudflared'', ''tunnel'', ''--credentials-file'', credentialsPath,
                  ''create'', tunnelName];
          (fs, r) = run_cmd E argv (files w);
          w1 = w\<lparr>files := fs, trace := trace w @ [Exec argv]\<rparr>
      in (case r of
            Some err \<Rightarrow> (w1, Inl (Fatal (''Failed to create tunnel: '' @ err)))
          | None \<Rightarrow>
             (case loadCredentials E w1 credentialsPath of
                Inl err \<Rightarrow> (w1, Inl (Fatal (''Failed to load tunnel credentials: '' @ err)))
              | Inr creds \<Rightarrow> (w1, Inr creds))))"

definition startTunnel :: "'z env \<Rightarrow> 'z world \<Rightarrow> string \<Rightarrow> 'z world \<times> (failure + unit)" where
  "startTunnel E w configPath =
     (let argv = [''cloudflared'', ''--config'', configPath, ''tunnel'', ''run''];
          w1 = w\<lparr>trace := trace w @ [Start argv]\<rparr>
      in (case start_cmd E argv of
            Some err \<Rightarrow> (w1, Inl (Fatal (''Failed to start Cloudflare Tunnel: '' @ err)))
          | None \<Rightarrow> (w1, Inr ())))"

text \<open>\<open>logoutCloudflare\<close> only logs whether the subprocess failed.\<close>

definition logoutCloudflare :: "'z env \<Rightarrow> 'z world \<Rightarrow> 'z world" where
  "logoutCloudflare E w =
     (let argv = [''cloudflared'', ''tunnel'', ''logout''];
          (fs, r) = run_cmd E argv (files w)
      in w\<lparr>files := fs, trace := trace w @ [Exec argv]\<rparr>)"

text \<open>
  \<open>startSocks5\<close>: the listener runs in a goroutine of its own; what it does after its
  start is not part of the model.
\<close>

definition startSocks5 :: "'z env \<Rightarrow> 'z world \<Rightarrow> int \<Rightarrow> 'z world \<times> (failure + unit)" where
  "startSocks5 E w port =
     (case socks5_error E of
        Some err \<Rightarrow> (w, Inl (Fatal (''Failed to create SOCKS5 server: '' @ err)))
      | None \<Rightarrow> (w\<lparr>trace := trace w @ [Socks5 port]\<rparr>, Inr ()))"

section \<open>Zone/DNS client (part_001)\<close>

definition cloudflareAPIRequest ::
  "'z env \<Rightarrow> 'z world \<Rightarrow> string \<Rightarrow> string \<Rightarrow> string \<Rightarrow> string \<Rightarrow> 'z world \<times> (error + string)" where
  "cloudflareAPIRequest E w method url apiToken payload =
     (case url_error E url of
        Some err \<Rightarrow> (w, Inl (''failed to create API request: '' @ err))
      | None \<Rightarrow>
         (let req = \<lparr>Method = method, URL = url, Authorization = ''Bearer '' @ apiToken,
                     ContentType = ''application/json'', Body = payload\<rparr>;
              (z, r) = roundtrip E (zone w) req;
              w1 = w\<lparr>zone := z, trace := trace w @ [Request req]\<rparr>
          in (case r of
                Inl err \<Rightarrow> (w1, Inl (''API request failed: '' @ err))
              | Inr resp \<Rightarrow>
                 if StatusCode resp \<ge> 400 then (w1, Inl (''API error: '' @ RespBody resp))
                 else (w1, Inr (RespBody resp)))))"

definition dnsRecordExists ::
  "'z env \<Rightarrow> 'z world \<Rightarrow> string \<Rightarrow> string \<Rightarrow> string \<Rightarrow> 'z world \<times> (failure + bool)" where
  "dnsRecordExists E w zoneID domain apiToken =
     (let url = ''https://api.cloudflare.com/client/v4/zones/'' @ zoneID @
                ''/dns_records?name='' @ domain
      in (case cloudflareAPIRequest E w ''GET'' url apiToken [] of
            (w1, Inl err) \<Rightarrow> (w1, Inl (Fatal (''Failed to query DNS record: '' @ err)))
          | (w1, Inr resp) \<Rightarrow>
             (case unmarshal_DNSQuery E resp of
                Inl err \<Rightarrow> (w1, Inl (Fatal (''Failed to parse DNS record response: '' @ err)))
              | Inr result \<Rightarrow> (w1, Inr (length (Result result) > 0)))))"

definition ensureDNSRecord ::
  "'z env \<Rightarrow> 'z world \<Rightarrow> string \<Rightarrow> string \<Rightarrow> string \<Rightarrow> string \<Rightarrow> 'z world \<times> (failure + unit)" where
  "ensureDNSRecord E w zoneID domain tunnelID apiToken =
     (case dnsRecordExists E w zoneID domain apiToken of
        (w1, Inl f) \<Rightarrow> (w1, Inl f)
      | (w1, Inr exists) \<Rightarrow>
         if exists then (w1, Inr ())
         else
          (let record = \<lparr>ID = [], Type = ''CNAME'', Name = domain,
                          Value = tunnelID @ ''.cfargotunnel.com''\<rparr>;
               payload = json_Marshal_DNSRecord E record;
               url = ''https://api.cloudflare.com/client/v4/zones/'' @ zoneID @ ''/dns_records''
           in (case cloudflareAPIRequest E w1 ''POST'' url apiToken payload of
                 (w2, Inl err) \<Rightarrow> (w2, Inl (Fatal (''Failed to create DNS record: '' @ err)))
               | (w2, Inr resp) \<Rightarrow> (w2, Inr ()))))"

section \<open>The orchestrator (part_001)\<close>

text \<open>
  The parsed command line of \<open>main\<close>. Defaults of the flag set: port 0, tunnel and
  domain empty, \<open>./api-keys.json\<close>, \<open>./credentials.json\<close>, protocol \<open>http\<close>, SOCKS5
  port 1080, proxy domain empty.
\<close>

record flags =
  flag_port :: int
  flag_tunnel :: string
  flag_domain :: string
  flag_apiKeys :: string
  flag_credentials :: string
  flag_protocol :: string
  flag_socks5_port :: int
  flag_proxy_domain :: string

text \<open>\<open>os.IsNotExist\<close> of the error of \<open>os.Stat\<close>.\<close>

definition stat_IsNotExist :: "'z world \<Rightarrow> string \<Rightarrow> bool" where
  "stat_IsNotExist w path =
     (case files w path of File d m \<Rightarrow> False | Missing \<Rightarrow> True | NoDir \<Rightarrow> True | Blocked msg \<Rightarrow> False)"

text \<open>
  The branch "reuse previous config if flags missing". \<open>main\<close> is modelled up to the
  point where it blocks on the signal channel; \<open>after_signal\<close> is what it does from
  there: cancel the context, wait for the daemon, and the deferred \<open>logoutCloudflare\<close>.
\<close>

definition reuse_previous :: "'z env \<Rightarrow> 'z world \<Rightarrow> flags \<Rightarrow> 'z world \<times> (failure + unit)" where
  "reuse_previous E w fl =
     (case loadCredentials E w (flag_credentials fl) of
        Inl err \<Rightarrow> (w, Inl (Fatal (''Previous configuration not found: '' @ err)))
      | Inr creds \<Rightarrow>
         (let cfg = ''./'' @ TunnelID creds @ ''-config.yml'' in
          if stat_IsNotExist w cfg then (w, Inl (Fatal (''Config '' @ cfg @ '' not found'')))
          else startTunnel E w cfg))"

text \<open>"load or create tunnel + DNS", up to the saved credentials.\<close>

definition load_or_create ::
  "'z env \<Rightarrow> 'z world \<Rightarrow> flags \<Rightarrow> 'z world \<times> (failure + APIKeys \<times> TunnelCredentials)" where
  "load_or_create E w fl =
     (case loadAPIKeys E w (flag_apiKeys fl) of
        Inl err \<Rightarrow> (w, Inl (Fatal (''Failed to load API keys: '' @ err)))
      | Inr apiKeys \<Rightarrow>
         (case loadCredentials E w (flag_credentials fl) of
            Inr creds \<Rightarrow> (w, Inr (apiKeys, creds))
          | Inl err \<Rightarrow>
             (case authenticateCloudflare E w of
                (w1, Inl f) \<Rightarrow> (w1, Inl f)
              | (w1, Inr u) \<Rightarrow>
                 (case createTunnel E w1 (flag_tunnel fl) (flag_credentials fl) of
                    (w2, Inl f) \<Rightarrow> (w2, Inl f)
                  | (w2, Inr creds) \<Rightarrow>
                     (case saveCredentials E w2 (flag_credentials fl) creds of
                        (w3, Some err2) \<Rightarrow> (w3, Inl (Fatal (''Failed to save credentials: '' @ err2)))
                      | (w3, None) \<Rightarrow> (w3, Inr (apiKeys, creds)))))))"

text \<open>"build ingress routes": the switch on the protocol flag.\<close>

definition build_routes ::
  "'z env \<Rightarrow> 'z world \<Rightarrow> flags \<Rightarrow> APIKeys \<Rightarrow> TunnelCredentials \<Rightarrow> 'z world \<times> (failure + Route list)" where
  "build_routes E w fl apiKeys creds =
     (if flag_protocol fl = ''http'' then
        (w, Inr [\<lparr>Hostname = flag_domain fl,
                  Service = ''http://localhost:'' @ fmt_d (flag_port fl)\<rparr>])
      else if flag_protocol fl = ''tcp'' then
        (w, Inr [\<lparr>Hostname = flag_domain fl,
                  Service = ''tcp://localhost:'' @ fmt_d (flag_port fl)\<rparr>])
      else if flag_protocol fl = ''all'' then
        (if flag_proxy_domain fl = [] then
           (w, Inl (Fatal ''proxy-domain is required when protocol=all''))
         else
           (case ensureDNSRecord E w (ZoneID apiKeys) (flag_proxy_domain fl) (TunnelID creds)
                   (ApiToken apiKeys) of
              (w1, Inl f) \<Rightarrow> (w1, Inl f)
            | (w1, Inr u) \<Rightarrow>
               (w1, Inr ([] @ [\<lparr>Hostname = flag_domain fl,
                                Service = ''tcp://localhost:'' @ fmt_d (flag_port fl)\<rparr>]
                            @ [\<lparr>Hostname = flag_proxy_domain fl,
                                Service = ''tcp://localhost:'' @ fmt_d (flag_socks5_port fl)\<rparr>]))))
      else (w, Inl (Fatal (''Unsupported protocol: '' @ flag_protocol fl))))"

text \<open>
  "write config and start services". A panic unwinds \<open>main\<close>, so its deferred
  \<open>logoutCloudflare\<close> runs; after \<open>log.Fatalf\<close> nothing runs.
\<close>

definition write_and_start ::
  "'z env \<Rightarrow> 'z world \<Rightarrow> flags \<Rightarrow> TunnelCredentials \<Rightarrow> Route list \<Rightarrow> 'z world \<times> (failure + unit)" where
  "write_and_start E w fl creds routes =
     (case writeConfigFile w (TunnelID creds) (flag_credentials fl) routes of
        (w1, Inl (Fatal msg)) \<Rightarrow> (w1, Inl (Fatal msg))
      | (w1, Inl (Panic msg)) \<Rightarrow> (logoutCloudflare E w1, Inl (Panic msg))
      | (w1, Inr configPath) \<Rightarrow>
         (case (if flag_protocol fl = ''all'' then startSocks5 E w1 (flag_socks5_port fl)
                else (w1, Inr ())) of
            (w2, Inl f) \<Rightarrow> (w2, Inl f)
          | (w2, Inr u) \<Rightarrow> startTunnel E w2 configPath))"

definition main :: "'z env \<Rightarrow> 'z world \<Rightarrow> flags \<Rightarrow> 'z world \<times> (failure + unit)" where
  "main E w fl =
     (if flag_port fl = 0 \<or> flag_tunnel fl = [] \<or> flag_domain fl = [] then reuse_previous E w fl
      else
       (case load_or_create E w fl of
          (w1, Inl f) \<Rightarrow> (w1, Inl f)
        | (w1, Inr (apiKeys, creds)) \<Rightarrow>
           (case ensureDNSRecord E w1 (ZoneID apiKeys) (flag_domain fl) (TunnelID creds)
                   (ApiToken apiKeys) of
              (w2, Inl f) \<Rightarrow> (w2, Inl f)
            | (w2, Inr u) \<Rightarrow>
               (case build_routes E w2 fl apiKeys creds of
                  (w3, Inl f) \<Rightarrow> (w3, Inl f)
                | (w3, Inr routes) \<Rightarrow> write_and_start E w3 fl creds routes))))"


section \<open>The root main.go\<close>

text \<open>
  The root \<open>main.go\<close> forwards one port over HTTP. Its \<open>saveCredentials\<close>,
  \<open>authenticateCloudflare\<close> and \<open>startTunnel\<close> are those of part_001 (up to log
  lines); the functions below differ: errors are returned unwrapped, \<open>loadAPIKeys\<close> has
  no check of the fields, \<open>cloudflareAPIRequest\<close> itself ends the process on a status
  of 400 or more, and \<open>writeConfigFile\<close> writes one route and a fixed fallback.
\<close>

definition loadAPIKeys_main_go :: "'z env \<Rightarrow> 'z world \<Rightarrow> string \<Rightarrow> error + APIKeys" where
  "loadAPIKeys_main_go E w filePath =
     (case os_ReadFile w filePath of
        Inl err \<Rightarrow> Inl err
      | Inr d \<Rightarrow>
         (case unmarshal_APIKeys E d of
            Inl err \<Rightarrow> Inl err
          | Inr keys \<Rightarrow> Inr keys))"

definition loadCredentials_main_go :: "'z env \<Rightarrow> 'z world \<Rightarrow> string \<Rightarrow> error + TunnelCredentials" where
  "loadCredentials_main_go E w filePath =
     (case os_ReadFile w filePath of
        Inl err \<Rightarrow> Inl err
      | Inr d \<Rightarrow>
         (case unmarshal_TunnelCredentials E d of
            Inl err \<Rightarrow> Inl err
          | Inr creds \<Rightarrow> Inr creds))"

definition createTunnel_main_go ::
  "'z env \<Rightarrow> 'z world \<Rightarrow> string \<Rightarrow> string \<Rightarrow> 'z world \<times> (failure + TunnelCredentials)" where
  "createTunnel_main_go E w tunnelName credentialsPath =
     (let argv = [''cloudflared'', ''tunnel'', ''--credentials-file'', credentialsPath,
                  ''create'', tunnelName];
          (fs, r) = run_cmd E argv (files w);
          w1 = w\<lparr>files := fs, trace := trace w @ [Exec argv]\<rparr>
      in (case r of
            Some err \<Rightarrow> (w1, Inl (Fatal (''Failed to create tunnel: '' @ err)))
          | None \<Rightarrow>
             (case loadCredentials_main_go E w1 credentialsPath of
                Inl err \<Rightarrow> (w1, Inl (Fatal (''Failed to load tunnel credentials: '' @ err)))
              | Inr creds \<Rightarrow> (w1, Inr creds))))"

definition cloudflareAPIRequest_main_go ::
  "'z env \<Rightarrow> 'z world \<Rightarrow> string \<Rightarrow> string \<Rightarrow> string \<Rightarrow> string \<Rightarrow>
   'z world \<times> (failure + (error + string))" where
  "cloudflareAPIRequest_main_go E w method url apiToken payload =
     (case url_error E url of
        Some err \<Rightarrow> (w, Inr (Inl err))
      | None \<Rightarrow>
         (let req = \<lparr>Method = method, URL = url, Authorization = ''Bearer '' @ apiToken,
                     ContentType = ''application/json'', Body = payload\<rparr>;
              (z, r) = roundtrip E (zone w) req;
              w1 = w\<lparr>zone := z, trace := trace w @ [Request req]\<rparr>
          in (case r of
                Inl err \<Rightarrow> (w1, Inr (Inl err))
              | Inr resp \<Rightarrow>
                 if StatusCode resp \<ge> 400
                 then (w1, Inl (Fatal (''Cloudflare API request failed: '' @ RespBody resp @ ''\<newline>'')))
                 else (w1, Inr (Inr (RespBody resp))))))"

definition dnsRecordExists_main_go ::
  "'z env \<Rightarrow> 'z world \<Rightarrow> string \<Rightarrow> string \<Rightarrow> string \<Rightarrow> 'z world \<times> (failure + bool)" where
  "dnsRecordExists_main_go E w zoneID domain apiToken =
     (let url = ''https://api.cloudflare.com/client/v4/zones/'' @ zoneID @
                ''/dns_records?name='' @ domain
      in (case cloudflareAPIRequest_main_go E w ''GET'' url apiToken [] of
            (w1, Inl f) \<Rightarrow> (w1, Inl f)
          | (w1, Inr (Inl err)) \<Rightarrow> (w1, Inl (Fatal (''Failed to query DNS record: '' @ err)))
          | (w1, Inr (Inr resp)) \<Rightarrow>
             (case unmarshal_DNSQuery E resp of
                Inl err \<Rightarrow>
                  (w1, Inl (Fatal (''Failed to parse DNS record query response: '' @ err)))
              | Inr result \<Rightarrow> (w1, Inr (length (Result result) > 0)))))"

definition ensureDNSRecord_main_go ::
  "'z env \<Rightarrow> 'z world \<Rightarrow> string \<Rightarrow> string \<Rightarrow> string \<Rightarrow> string \<Rightarrow> 'z world \<times> (failure + unit)" where
  "ensureDNSRecord_main_go E w zoneID domain tunnelID apiToken =
     (case dnsRecordExists_main_go E w zoneID domain apiToken of
        (w1, Inl f) \<Rightarrow> (w1, Inl f)
      | (w1, Inr exists) \<Rightarrow>
         if exists then (w1, Inr ())
         else
          (let url = ''https://api.cloudflare.com/client/v4/zones/'' @ zoneID @ ''/dns_records'';
               record = \<lparr>ID = [], Type = ''CNAME'', Name = domain,
                          Value = tunnelID @ ''.cfargotunnel.com''\<rparr>;
               payload = json_Marshal_DNSRecord E record
           in (case cloudflareAPIRequest_main_go E w1 ''POST'' url apiToken payload of
                 (w2, Inl f) \<Rightarrow> (w2, Inl f)
               | (w2, Inr (Inl err)) \<Rightarrow> (w2, Inl (Fatal (''Failed to create DNS record: '' @ err)))
               | (w2, Inr (Inr resp)) \<Rightarrow> (w2, Inr ()))))"

definition writeConfigFile_main_go ::
  "'z world \<Rightarrow> string \<Rightarrow> string \<Rightarrow> int \<Rightarrow> string \<Rightarrow> string \<Rightarrow> 'z world \<times> (failure + string)" where
  "writeConfigFile_main_go w tunnelName tunnelID port domain credentialsPath =
     (let configPath = ''./'' @ tunnelID @ ''-config.yml'' in
      (case os_Create w configPath of
         Inl err \<Rightarrow> (w, Inl (Fatal (''Failed to create config file: '' @ err)))
       | Inr w0 \<Rightarrow>
          (let w1 = Fprint w0 configPath (''tunnel: '' @ tunnelID @ ''\<newline>'');
               w2 = Fprint w1 configPath (''credentials-file: '' @ credentialsPath @ ''\<newline>'');
               w3 = Fprint w2 configPath ''ingress:\<newline>'';
               w4 = Fprint w3 configPath (''  - hostname: '' @ domain @ ''\<newline>'');
               w5 = Fprint w4 configPath (''    service: http://localhost:'' @ fmt_d port @ ''\<newline>'');
               w6 = Fprint w5 configPath ''  - service: http_status:404\<newline>''
           in (w6, Inr configPath))))"

definition main_main_go :: "'z env \<Rightarrow> 'z world \<Rightarrow> flags \<Rightarrow> 'z world \<times> (failure + unit)" where
  "main_main_go E w fl =
     (if flag_port fl = 0 \<or> flag_tunnel fl = [] \<or> flag_domain fl = [] then
        (case loadCredentials_main_go E w (flag_credentials fl) of
           Inl err \<Rightarrow>
             (w, Inl (Fatal (''Previous configuration not found and required arguments not passed: '' @ err)))
         | Inr creds \<Rightarrow>
            (let configPath = ''./'' @ TunnelID creds @ ''-config.yml'' in
             if stat_IsNotExist w configPath
             then (w, Inl (Fatal (''Previous config file '' @ configPath @ '' not found.'')))
             else startTunnel E w configPath))
      else
       (case loadAPIKeys_main_go E w (flag_apiKeys fl) of
          Inl err \<Rightarrow> (w, Inl (Fatal (''Failed to load API keys: '' @ err)))
        | Inr apiKeys \<Rightarrow>
           (case (case loadCredentials_main_go E w (flag_credentials fl) of
                    Inr creds \<Rightarrow> (w, Inr creds)
                  | Inl err \<Rightarrow>
                     (case authenticateCloudflare E w of
                        (w1, Inl f) \<Rightarrow> (w1, Inl f)
                      | (w1, Inr u) \<Rightarrow>
                         (case createTunnel_main_go E w1 (flag_tunnel fl) (flag_credentials fl) of
                            (w2, Inl f) \<Rightarrow> (w2, Inl f)
                          | (w2, Inr creds) \<Rightarrow>
                             (case saveCredentials E w2 (flag_credentials fl) creds of
                                (w3, Some err2) \<Rightarrow>
                                  (w3, Inl (Fatal (''Failed to save tunnel credentials: '' @ err2)))
                              | (w3, None) \<Rightarrow> (w3, Inr creds))))) of
              (w4, Inl f) \<Rightarrow> (w4, Inl f)
            | (w4, Inr creds) \<Rightarrow>
               (case ensureDNSRecord_main_go E w4 (ZoneID apiKeys) (flag_domain fl) (TunnelID creds)
                       (ApiToken apiKeys) of
                  (w5, Inl f) \<Rightarrow> (w5, Inl f)
                | (w5, Inr u) \<Rightarrow>
                   (case writeConfigFile_main_go w5 (flag_tunnel fl) (TunnelID creds) (flag_port fl)
                           (flag_domain fl) (flag_credentials fl) of
                      (w6, Inl f) \<Rightarrow> (w6, Inl f)
                    | (w6, Inr configPath) \<Rightarrow> startTunnel E w6 configPath)))))"

section \<open>The config writer of part_000\<close>

text \<open>part_000 forwards a list of ports under one domain; its fallback line is fixed.\<close>

fun write_port_blocks :: "'z world \<Rightarrow> string \<Rightarrow> string \<Rightarrow> int list \<Rightarrow> 'z world" where
  "write_port_blocks w path domain [] = w"
| "write_port_blocks w path domain (port # ports) =
     write_port_blocks
       (Fprint (Fprint w path (''  - hostname: '' @ domain @ ''\<newline>''))
          path (''    service: http://localhost:'' @ fmt_d port @ ''\<newline>''))
       path domain ports"

definition writeConfigFile_part_000 ::
  "'z world \<Rightarrow> string \<Rightarrow> int list \<Rightarrow> string \<Rightarrow> string \<Rightarrow> 'z world \<times> (failure + string)" where
  "writeConfigFile_part_000 w tunnelName ports domain credentialsPath =
     (let configPath = ''./'' @ tunnelName @ ''-config.yml'' in
      (case os_Create w configPath of
         Inl err \<Rightarrow> (w, Inl (Fatal (''Failed to create config file: '' @ err)))
       | Inr w0 \<Rightarrow>
          (let w1 = Fprint w0 configPath (''tunnel: '' @ tunnelName @ ''\<newline>'');
               w2 = Fprint w1 configPath (''credentials-file: '' @ credentialsPath @ ''\<newline>'');
               w3 = Fprint w2 configPath ''ingress:\<newline>'';
               w4 = write_port_blocks w3 configPath domain ports;
               w5 = Fprint w4 configPath ''  - service: http_status:404\<newline>''
           in (w5, Inr configPath))))"

section \<open>Vocabulary of the statements\<close>

text \<open>The bytes of the file at a path, when there is one.\<close>

definition content :: "'z world \<Rightarrow> string \<Rightarrow> string option" where
  "content w path = (case files w path of File d m \<Rightarrow> Some d | Missing \<Rightarrow> None | NoDir \<Rightarrow> None | Blocked msg \<Rightarrow> None)"

text \<open>Whether \<open>os.Create\<close> can open the path: a file is there, or can be made.\<close>

definition creatable :: "'z world \<Rightarrow> string \<Rightarrow> bool" where
  "creatable w path = (case files w path of File d m \<Rightarrow> True | Missing \<Rightarrow> True | NoDir \<Rightarrow> False | Blocked msg \<Rightarrow> False)"

definition config_path :: "string \<Rightarrow> string" where
  "config_path tunnelID = ''./'' @ tunnelID @ ''-config.yml''"

definition config_head :: "string \<Rightarrow> string \<Rightarrow> string" where
  "config_head tunnelID credentialsPath =
     ''tunnel: '' @ tunnelID @ ''\<newline>'' @ ''credentials-file: '' @ credentialsPath @ ''\<newline>'' @ ''ingress:\<newline>''"

definition route_block :: "Route \<Rightarrow> string" where
  "route_block r = ''  - hostname: '' @ Hostname r @ ''\<newline>'' @ ''    service: '' @ Service r @ ''\<newline>''"

definition fallback_line :: "string \<Rightarrow> string" where
  "fallback_line target = ''  - service: '' @ target @ ''\<newline>''"

text \<open>
  The lines of a text: the runs of bytes between newlines; a last run with no newline
  after it counts when it is not empty. A string is single-line when it has no newline.
\<close>

fun split_lines :: "string \<Rightarrow> string \<Rightarrow> string list" where
  "split_lines acc [] = (if acc = [] then [] else [acc])"
| "split_lines acc (c # cs) =
     (if c = CHR 0x0A then acc # split_lines [] cs else split_lines (acc @ [c]) cs)"

definition lines_of :: "string \<Rightarrow> string list" where
  "lines_of s = split_lines [] s"

definition single_line :: "string \<Rightarrow> bool" where
  "single_line s = (CHR 0x0A \<notin> set s)"

text \<open>The two lines a route contributes, and the whole config as lines.\<close>

definition route_lines :: "Route \<Rightarrow> string list" where
  "route_lines r = [''  - hostname: '' @ Hostname r, ''    service: '' @ Service r]"



text \<open>The two requests of the DNS client: the lookup by name and the create call.\<close>

definition lookup_request :: "string \<Rightarrow> string \<Rightarrow> string \<Rightarrow> request" where
  "lookup_request zoneID domain apiToken =
     \<lparr>Method = ''GET'',
      URL = ''https://api.cloudflare.com/client/v4/zones/'' @ zoneID @ ''/dns_records?name='' @ domain,
      Authorization = ''Bearer '' @ apiToken, ContentType = ''application/json'', Body = []\<rparr>"

definition create_request :: "'z env \<Rightarrow> string \<Rightarrow> string \<Rightarrow> string \<Rightarrow> string \<Rightarrow> request" where
  "create_request E zoneID domain tunnelID apiToken =
     \<lparr>Method = ''POST'',
      URL = ''https://api.cloudflare.com/client/v4/zones/'' @ zoneID @ ''/dns_records'',
      Authorization = ''Bearer '' @ apiToken, ContentType = ''application/json'',
      Body = json_Marshal_DNSRecord E
               \<lparr>ID = [], Type = ''CNAME'', Name = domain, Value = tunnelID @ ''.cfargotunnel.com''\<rparr>\<rparr>"


text \<open>The number of create calls (POST requests) in a trace.\<close>

definition create_calls :: "event list \<Rightarrow> nat" where
  "create_calls evs =
     length (filter (\<lambda>e. case e of Exec argv \<Rightarrow> False | Start argv \<Rightarrow> False
                          | Request r \<Rightarrow> Method r = ''POST'' | Socks5 p \<Rightarrow> False) evs)"

section \<open>Test fixtures\<close>

text \<open>
  A fake DNS API whose state is the number of records made: a POST makes one, and a
  lookup answers with one record once one was made. The decoders know the documents the
  fixtures use; the fake \<open>cloudflared\<close> writes a credentials file on \<open>create\<close>.
\<close>

definition fake_roundtrip :: "nat \<Rightarrow> request \<Rightarrow> nat \<times> (error + response)" where
  \<open>fake_roundtrip z req =
     (if Method req = ''POST''
      then (Suc z, Inr \<lparr>StatusCode = 200, RespBody = ''{"success":true,"result":{}}''\<rparr>)
      else (z, Inr \<lparr>StatusCode = 200,
                     RespBody = (if z = 0 then ''{"success":true,"result":[]}''
                                 else ''{"success":true,"result":[{}]}'')\<rparr>))\<close>

definition fake_unmarshal_DNSQuery :: "string \<Rightarrow> error + DNSQuery" where
  \<open>fake_unmarshal_DNSQuery s =
     (if s = ''{"success":true,"result":[]}'' then Inr \<lparr>Success = True, Result = []\<rparr>
      else if s = ''{"success":true,"result":[{}]}''
      then Inr \<lparr>Success = True, Result = [\<lparr>ID = [], Type = [], Name = [], Value = []\<rparr>]\<rparr>
      else Inl ''unexpected end of JSON input'')\<close>

definition fake_unmarshal_APIKeys :: "string \<Rightarrow> error + APIKeys" where
  \<open>fake_unmarshal_APIKeys s =
     (if s = ''{"ApiToken":"tok","ZoneId":"zone"}'' then Inr \<lparr>ApiToken = ''tok'', ZoneID = ''zone''\<rparr>
      else if s = ''{"ZoneId":"zone"}'' then Inr \<lparr>ApiToken = [], ZoneID = ''zone''\<rparr>
      else Inl ''unexpected end of JSON input'')\<close>

definition fake_unmarshal_TunnelCredentials :: "string \<Rightarrow> error + TunnelCredentials" where
  \<open>fake_unmarshal_TunnelCredentials s =
     (if s = ''{"AccountTag":"acct","TunnelSecret":"s3cr3t","TunnelID":"abc123"}''
      then Inr \<lparr>AccountTag = ''acct'', TunnelSecret = ''s3cr3t'', TunnelID = ''abc123''\<rparr>
      else if s = ''{}'' then Inr \<lparr>AccountTag = [], TunnelSecret = [], TunnelID = []\<rparr>
      else Inl ''unexpected end of JSON input'')\<close>

definition fake_run_cmd :: "string list \<Rightarrow> (string \<Rightarrow> node) \<Rightarrow> (string \<Rightarrow> node) \<times> error option" where
  \<open>fake_run_cmd argv fs =
     (if length argv = 6
      then (fs((argv ! 3) :=
                 File ''{"AccountTag":"acct","TunnelSecret":"s3cr3t","TunnelID":"abc123"}'' 384),
            None)
      else (fs, None))\<close>

definition fake_env :: "nat env" where
  "fake_env =
     \<lparr>roundtrip = fake_roundtrip, url_error = (\<lambda>u. None), run_cmd = fake_run_cmd,
      start_cmd = (\<lambda>argv. None), socks5_error = None,
      json_string = (\<lambda>s. [CHR 0x22] @ s @ [CHR 0x22]),
      unmarshal_APIKeys = fake_unmarshal_APIKeys,
      unmarshal_TunnelCredentials = fake_unmarshal_TunnelCredentials,
      unmarshal_DNSQuery = fake_unmarshal_DNSQuery\<rparr>"

text \<open>The same API answering every request with status 300 and an empty result set.\<close>

definition multiple_choices_env :: "nat env" where
  \<open>multiple_choices_env =
     fake_env\<lparr>roundtrip :=
       (\<lambda>z req. (z, Inr \<lparr>StatusCode = 300, RespBody = ''{"success":true,"result":[]}''\<rparr>))\<rparr>\<close>

text \<open>A working directory with no file; umask 022 (18).\<close>

definition fresh_world :: "nat world" where
  "fresh_world = \<lparr>files = (\<lambda>p. Missing), umask = 18, zone = 0, trace = []\<rparr>"

text \<open>
  One with a key file and a credentials file; one whose key file lacks \<open>ApiToken\<close>; one
  whose credentials file is the empty object and has mode 0644 (420).
\<close>

definition provisioned_world :: "nat world" where
  \<open>provisioned_world =
     \<lparr>files = (\<lambda>p. if p = ''./api-keys.json''
                     then File ''{"ApiToken":"tok","ZoneId":"zone"}'' 420
                     else if p = ''./credentials.json''
                     then File ''{"AccountTag":"acct","TunnelSecret":"s3cr3t","TunnelID":"abc123"}'' 384
                     else Missing),
      umask = 18, zone = 0, trace = []\<rparr>\<close>

definition tokenless_world :: "nat world" where
  \<open>tokenless_world =
     provisioned_world\<lparr>files := (files provisioned_world)
        (''./api-keys.json'' := File ''{"ZoneId":"zone"}'' 420)\<rparr>\<close>

definition blank_identity_world :: "nat world" where
  \<open>blank_identity_world =
     provisioned_world\<lparr>files := (files provisioned_world)
        (''./credentials.json'' := File ''{}'' 420)\<rparr>\<close>

definition http_flags :: flags where
  "http_flags =
     \<lparr>flag_port = 8080, flag_tunnel = ''my-tunnel'', flag_domain = ''a.test'',
      flag_apiKeys = ''./api-keys.json'', flag_credentials = ''./credentials.json'',
      flag_protocol = ''http'', flag_socks5_port = 1080, flag_proxy_domain = []\<rparr>"

text \<open>The API out of reach, and the API refusing every request with status 403.\<close>

definition unreachable_env :: "nat env" where
  "unreachable_env = fake_env\<lparr>roundtrip := (\<lambda>z req. (z, Inl ''dial tcp: connection refused''))\<rparr>"

definition forbidden_env :: "nat env" where
  \<open>forbidden_env =
     fake_env\<lparr>roundtrip := (\<lambda>z req. (z, Inr \<lparr>StatusCode = 403, RespBody = ''{"success":false}''\<rparr>))\<rparr>\<close>

text \<open>
  A fake DNS API that answers by name: its state is the list of the bodies of the create
  calls it got, and a lookup finds a record when one of them names the host of the
  lookup's \<open>?name=\<close> parameter.
\<close>

fun after_marker :: "string \<Rightarrow> string \<Rightarrow> string" where
  "after_marker marker [] = []"
| "after_marker marker (c # cs) =
     (if take (length marker) (c # cs) = marker then drop (length marker) (c # cs)
      else after_marker marker cs)"

fun has_infix :: "string \<Rightarrow> string \<Rightarrow> bool" where
  "has_infix pat [] = (pat = [])"
| "has_infix pat (c # cs) = (take (length pat) (c # cs) = pat \<or> has_infix pat cs)"

definition named_roundtrip :: "string list \<Rightarrow> request \<Rightarrow> string list \<times> (error + response)" where
  \<open>named_roundtrip z req =
     (if Method req = ''POST''
      then (z @ [Body req], Inr \<lparr>StatusCode = 200, RespBody = ''{"success":true,"result":{}}''\<rparr>)
      else (z, Inr \<lparr>StatusCode = 200,
                     RespBody =
                       (if list_ex (has_infix (''"name":"'' @ after_marker ''?name='' (URL req) @ ''"'')) z
                        then ''{"success":true,"result":[{}]}''
                        else ''{"success":true,"result":[]}'')\<rparr>))\<close>

definition named_env :: "string list env" where
  "named_env =
     \<lparr>roundtrip = named_roundtrip, url_error = (\<lambda>u. None), run_cmd = fake_run_cmd,
      start_cmd = (\<lambda>argv. None), socks5_error = None,
      json_string = (\<lambda>s. [CHR 0x22] @ s @ [CHR 0x22]),
      unmarshal_APIKeys = fake_unmarshal_APIKeys,
      unmarshal_TunnelCredentials = fake_unmarshal_TunnelCredentials,
      unmarshal_DNSQuery = fake_unmarshal_DNSQuery\<rparr>"

text \<open>The working directory of \<open>provisioned_world\<close> in front of that API.\<close>

definition named_world :: "string list world" where
  "named_world = \<lparr>files = files provisioned_world, umask = 18, zone = [], trace = []\<rparr>"

text \<open>
  The command line for \<open>protocol=all\<close>; one with no port; and a working directory
  that also holds the config of an earlier run.
\<close>

definition all_flags :: flags where
  "all_flags =
     \<lparr>flag_port = 22, flag_tunnel = ''my-tunnel'', flag_domain = ''a.test'',
      flag_apiKeys = ''./api-keys.json'', flag_credentials = ''./credentials.json'',
      flag_protocol = ''all'', flag_socks5_port = 1080, flag_proxy_domain = ''p.test''\<rparr>"



section \<open>Lemmas on the file operations\<close>

lemma content_Fprint:
  "content w path = Some d \<Longrightarrow> content (Fprint w path s) path = Some (d @ s)"
  by (auto simp: content_def Fprint_def split: node.splits)

lemma content_write_route_blocks:
  "content w path = Some d \<Longrightarrow>
   content (write_route_blocks w path rs) path = Some (d @ concat (map route_block rs))"
  by (induction rs arbitrary: w d) (simp_all add: content_Fprint route_block_def)

lemma os_Create_creatable:
  "creatable w path \<Longrightarrow> \<exists>w0. os_Create w path = Inr w0 \<and> content w0 path = Some []"
  by (auto simp: creatable_def os_Create_def content_def split: node.splits)

lemma os_Create_not_creatable:
  "\<not> creatable w path \<Longrightarrow> \<exists>err. os_Create w path = Inl err"
  by (auto simp: creatable_def os_Create_def split: node.splits)

lemma writeConfigFile_Cons:
  assumes "creatable w (config_path t)"
  shows "snd (writeConfigFile w t c (r0 # rest)) = Inr (config_path t)"
    and "content (fst (writeConfigFile w t c (r0 # rest))) (config_path t) =
         Some (config_head t c @ concat (map route_block (r0 # rest)) @
               fallback_line (if HasPrefix (Service r0) ''http://'' \<or> HasPrefix (Service r0) ''https://''
                              then ''http_status:404'' else ''tcp://localhost:0''))"
proof -
  from os_Create_creatable [OF assms] obtain w0 where
    c: "os_Create w (config_path t) = Inr w0" and e: "content w0 (config_path t) = Some []"
    by blast
  from c show "snd (writeConfigFile w t c (r0 # rest)) = Inr (config_path t)"
    by (simp add: writeConfigFile_def Let_def config_path_def)
  have "content (write_route_blocks (Fprint (Fprint (Fprint w0 (config_path t) (''tunnel: '' @ t @ ''\<newline>''))
           (config_path t) (''credentials-file: '' @ c @ ''\<newline>'')) (config_path t) ''ingress:\<newline>'')
          (config_path t) (r0 # rest)) (config_path t)
        = Some (config_head t c @ concat (map route_block (r0 # rest)))"
    using e by (simp add: content_Fprint content_write_route_blocks config_head_def del: write_route_blocks.simps)
  then show "content (fst (writeConfigFile w t c (r0 # rest))) (config_path t) =
         Some (config_head t c @ concat (map route_block (r0 # rest)) @
               fallback_line (if HasPrefix (Service r0) ''http://'' \<or> HasPrefix (Service r0) ''https://''
                              then ''http_status:404'' else ''tcp://localhost:0''))"
    using c
    by (simp add: writeConfigFile_def Let_def config_path_def content_Fprint fallback_line_def del: write_route_blocks.simps)
qed

lemma writeConfigFile_Nil:
  assumes "creatable w (config_path t)"
  shows "snd (writeConfigFile w t c []) = Inl (Panic ''runtime error: index out of range [0] with length 0'')"
    and "content (fst (writeConfigFile w t c [])) (config_path t) = Some (config_head t c)"
proof -
  from os_Create_creatable [OF assms] obtain w0 where
    c: "os_Create w (config_path t) = Inr w0" and e: "content w0 (config_path t) = Some []"
    by blast
  from c show "snd (writeConfigFile w t c []) = Inl (Panic ''runtime error: index out of range [0] with length 0'')"
    by (simp add: writeConfigFile_def Let_def config_path_def)
  from c e show "content (fst (writeConfigFile w t c [])) (config_path t) = Some (config_head t c)"
    by (simp add: writeConfigFile_def Let_def config_path_def content_Fprint config_head_def)
qed

lemma writeConfigFile_blocked:
  assumes "\<not> creatable w (config_path t)"
  shows "\<exists>err. writeConfigFile w t c routes = (w, Inl (Fatal (''Failed to create config file: '' @ err)))"
proof -
  from os_Create_not_creatable [OF assms] obtain err where "os_Create w (config_path t) = Inl err"
    by blast
  then show ?thesis by (simp add: writeConfigFile_def Let_def config_path_def)
qed

lemma Fprint_trace: "trace (Fprint w p s) = trace w"
  by (simp add: Fprint_def split: node.splits)

lemma write_route_blocks_trace: "trace (write_route_blocks w p rs) = trace w"
  by (induction rs arbitrary: w) (simp_all add: Fprint_trace)

lemma os_Create_trace: "os_Create w p = Inr w0 \<Longrightarrow> trace w0 = trace w \<and> zone w0 = zone w"
  by (auto simp: os_Create_def split: node.splits)

lemma writeConfigFile_trace: "trace (fst (writeConfigFile w t c routes)) = trace w"
  by (auto simp: writeConfigFile_def Let_def Fprint_trace write_route_blocks_trace
      dest: os_Create_trace split: sum.splits list.splits)

lemma writeConfigFile_no_panic:
  "snd (writeConfigFile w t c (r0 # rest)) \<noteq> Inl (Panic msg)"
proof (cases "creatable w (config_path t)")
  case True
  then show ?thesis by (simp add: writeConfigFile_Cons(1))
next
  case False
  from writeConfigFile_blocked [OF this] show ?thesis by (metis snd_conv sum.inject(1) failure.distinct(1))
qed

lemma creatable_fresh: "creatable fresh_world p"
  by (simp add: creatable_def fresh_world_def)


lemma split_lines_line:
  "single_line s \<Longrightarrow> split_lines acc (s @ ''\<newline>'' @ rest) = (acc @ s) # split_lines [] rest"
  by (induction s arbitrary: acc) (auto simp: single_line_def)

lemma lines_of_line:
  "single_line s \<Longrightarrow> lines_of (s @ ''\<newline>'' @ rest) = s # lines_of rest"
  using split_lines_line [of s "[]" rest] by (simp add: lines_of_def)

lemma lines_of_blocks:
  "\<forall>r \<in> set rs. single_line (Hostname r) \<and> single_line (Service r) \<Longrightarrow>
   lines_of (concat (map route_block rs) @ rest) = concat (map route_lines rs) @ lines_of rest"
proof (induction rs)
  case Nil
  then show ?case by simp
next
  case (Cons r rs)
  have h: "single_line (''  - hostname: '' @ Hostname r)" and s: "single_line (''    service: '' @ Service r)"
    using Cons.prems by (simp_all add: single_line_def)
  have "lines_of (concat (map route_block (r # rs)) @ rest) =
        lines_of ((''  - hostname: '' @ Hostname r) @ ''\<newline>'' @
                  ((''    service: '' @ Service r) @ ''\<newline>'' @ (concat (map route_block rs) @ rest)))"
    by (simp add: route_block_def)
  also have "\<dots> = (''  - hostname: '' @ Hostname r) # (''    service: '' @ Service r) #
                   lines_of (concat (map route_block rs) @ rest)"
    by (simp only: lines_of_line [OF h] lines_of_line [OF s])
  finally show ?case using Cons by (simp add: route_lines_def)
qed

lemma lines_of_config:
  assumes "single_line t" "single_line c" "single_line target"
    and "\<forall>r \<in> set rs. single_line (Hostname r) \<and> single_line (Service r)"
  shows "lines_of (config_head t c @ concat (map route_block rs) @ fallback_line target) =
         [''tunnel: '' @ t, ''credentials-file: '' @ c, ''ingress:''] @ concat (map route_lines rs) @
         [''  - service: '' @ target]"
proof -
  have a: "single_line (''tunnel: '' @ t)" and b: "single_line (''credentials-file: '' @ c)"
    and i: "single_line ''ingress:''" and f: "single_line (''  - service: '' @ target)"
    using assms by (simp_all add: single_line_def)
  have "lines_of (fallback_line target) = [''  - service: '' @ target]"
    using lines_of_line [OF f, of "[]"] by (simp add: fallback_line_def lines_of_def)
  then have tail: "lines_of (concat (map route_block rs) @ fallback_line target) =
      concat (map route_lines rs) @ [''  - service: '' @ target]"
    using lines_of_blocks [OF assms(4)] by simp
  have "lines_of (config_head t c @ concat (map route_block rs) @ fallback_line target) =
        lines_of ((''tunnel: '' @ t) @ ''\<newline>'' @ ((''credentials-file: '' @ c) @ ''\<newline>'' @
                  (''ingress:'' @ ''\<newline>'' @ (concat (map route_block rs) @ fallback_line target))))"
    by (simp add: config_head_def)
  also have "\<dots> = (''tunnel: '' @ t) # (''credentials-file: '' @ c) # ''ingress:'' #
       lines_of (concat (map route_block rs) @ fallback_line target)"
    by (simp only: lines_of_line [OF a] lines_of_line [OF b] lines_of_line [OF i])
  finally show ?thesis using tail by simp
qed

lemma one_fallback_line:
  "length (filter (\<lambda>l. HasPrefix l ''  - service: '')
     ([''tunnel: '' @ t, ''credentials-file: '' @ c, ''ingress:''] @ concat (map route_lines rs) @
         [''  - service: '' @ target])) = 1"
proof -
  have "filter (\<lambda>l. HasPrefix l ''  - service: '') (concat (map route_lines rs)) = []"
    by (induction rs) (simp_all add: route_lines_def HasPrefix_def)
  then show ?thesis by (simp add: HasPrefix_def)
qed

text \<open>
  The config read as lines: when the tunnel ID, the credentials path and the fields of
  the routes are single-line, the lines of the file are the header's three, two per
  route in the order of the list, and the fallback; exactly one line is a fallback rule.
\<close>

lemma config_lines:
  assumes "creatable w (config_path t)" and "single_line t" and "single_line c"
    and "\<forall>r \<in> set (r0 # rest). single_line (Hostname r) \<and> single_line (Service r)"
  shows "\<exists>text target.
           content (fst (writeConfigFile w t c (r0 # rest))) (config_path t) = Some text \<and>
           lines_of text =
             [''tunnel: '' @ t, ''credentials-file: '' @ c, ''ingress:''] @
             concat (map route_lines (r0 # rest)) @ [''  - service: '' @ target] \<and>
           length (filter (\<lambda>l. HasPrefix l ''  - service: '') (lines_of text)) = 1"
proof -
  let ?target = "if HasPrefix (Service r0) ''http://'' \<or> HasPrefix (Service r0) ''https://''
                 then ''http_status:404'' else ''tcp://localhost:0''"
  let ?text = "config_head t c @ concat (map route_block (r0 # rest)) @ fallback_line ?target"
  have s: "single_line ?target"
    by (simp add: single_line_def)
  have l: "lines_of ?text =
             [''tunnel: '' @ t, ''credentials-file: '' @ c, ''ingress:''] @
             concat (map route_lines (r0 # rest)) @ [''  - service: '' @ ?target]"
    by (rule lines_of_config [OF assms(2,3) s assms(4)])
  have "length (filter (\<lambda>l. HasPrefix l ''  - service: '') (lines_of ?text)) = 1"
    unfolding l by (rule one_fallback_line)
  with l writeConfigFile_Cons(2) [OF assms(1), of c r0 rest] show ?thesis
    by blast
qed

lemma HasPrefix_append: "HasPrefix (p @ s) p"
  by (simp add: HasPrefix_def)

lemma writeConfigFile_main_go_eq:
  "writeConfigFile_main_go w tunnelName tunnelID port host credentialsPath =
   writeConfigFile w tunnelID credentialsPath
     [\<lparr>Hostname = host, Service = ''http://localhost:'' @ fmt_d port\<rparr>]"
  using HasPrefix_append [of "''http://''" "''localhost:'' @ fmt_d port"]
  by (simp add: writeConfigFile_main_go_def writeConfigFile_def Let_def split: sum.splits)

lemma write_port_blocks_eq:
  "write_port_blocks w path host ports =
   write_route_blocks w path (map (\<lambda>p. \<lparr>Hostname = host, Service = ''http://localhost:'' @ fmt_d p\<rparr>) ports)"
  by (induction ports arbitrary: w) simp_all

lemma writeConfigFile_part_000_eq:
  "ports \<noteq> [] \<Longrightarrow>
   writeConfigFile_part_000 w tunnelName ports host credentialsPath =
   writeConfigFile w tunnelName credentialsPath
     (map (\<lambda>p. \<lparr>Hostname = host, Service = ''http://localhost:'' @ fmt_d p\<rparr>) ports)"
  using HasPrefix_append [of "''http://''" "''localhost:'' @ fmt_d (hd ports)"]
  by (cases ports) (simp_all add: writeConfigFile_part_000_def writeConfigFile_def Let_def write_port_blocks_eq
       split: sum.splits del: write_port_blocks.simps write_route_blocks.simps)

section \<open>The ingress config writer: fallback, path and layout\<close>

lemma fmt_d_examples:
  "fmt_d 8080 = ''8080''" "fmt_d 22 = ''22''" "fmt_d 1080 = ''1080''" "fmt_d 3000 = ''3000''"
  "fmt_d 5173 = ''5173''" "fmt_d 0 = ''0''" "fmt_d (- 7) = ''-7''"
  by (simp_all add: fmt_d_def decimal.simps)


text \<open>
  Claim C1. For every non-empty routes list, \<open>writeConfigFile\<close> emits exactly one
  fallback rule, after the header and the route blocks, and chooses it from the first
  route's service alone: \<open>http_status:404\<close> when that service begins with
  \<open>http://\<close> or \<open>https://\<close>, and \<open>tcp://localhost:0\<close> otherwise. (The file must be
  one that \<open>os.Create\<close> can open; otherwise nothing is written.) The writer of the
  root main.go is the instance with the one route \<open>http://localhost:<port>\<close>.
\<close>

theorem fallback_chosen_by_first_route:
  assumes "creatable w (config_path tunnelID)"
  shows "content (fst (writeConfigFile w tunnelID credentialsPath (r0 # rest))) (config_path tunnelID) =
           Some (config_head tunnelID credentialsPath @ concat (map route_block (r0 # rest)) @
                 ''  - service: '' @
                 (if HasPrefix (Service r0) ''http://'' \<or> HasPrefix (Service r0) ''https://''
                  then ''http_status:404'' else ''tcp://localhost:0'') @ ''\<newline>'') \<and>
         writeConfigFile_main_go w tunnelName tunnelID port host credentialsPath =
           writeConfigFile w tunnelID credentialsPath
             [\<lparr>Hostname = host, Service = ''http://localhost:'' @ fmt_d port\<rparr>]"
  using writeConfigFile_Cons(2) [OF assms, of credentialsPath r0 rest]
    writeConfigFile_main_go_eq [of w tunnelName tunnelID port host credentialsPath]
  by (simp add: fallback_line_def)

theorem fallback_chosen_by_first_route_witness:
  "creatable fresh_world (config_path ''abc123'') \<and>
   content (fst (writeConfigFile fresh_world ''abc123'' ''./credentials.json''
              [\<lparr>Hostname = ''a.test'', Service = ''http://localhost:8080''\<rparr>])) ''./abc123-config.yml'' =
     Some (''tunnel: abc123\<newline>credentials-file: ./credentials.json\<newline>ingress:\<newline>'' @
           ''  - hostname: a.test\<newline>    service: http://localhost:8080\<newline>'' @
           ''  - service: http_status:404\<newline>'') \<and>
   content (fst (writeConfigFile fresh_world ''abc123'' ''./credentials.json''
              [\<lparr>Hostname = ''a.test'', Service = ''tcp://localhost:22''\<rparr>,
               \<lparr>Hostname = ''b.test'', Service = ''http://localhost:80''\<rparr>])) ''./abc123-config.yml'' =
     Some (''tunnel: abc123\<newline>credentials-file: ./credentials.json\<newline>ingress:\<newline>'' @
           ''  - hostname: a.test\<newline>    service: tcp://localhost:22\<newline>'' @
           ''  - hostname: b.test\<newline>    service: http://localhost:80\<newline>'' @
           ''  - service: tcp://localhost:0\<newline>'') \<and>
   content (fst (writeConfigFile_main_go fresh_world ''my-tunnel'' ''abc123'' 8080 ''a.test''
              ''./credentials.json'')) ''./abc123-config.yml'' =
     Some (''tunnel: abc123\<newline>credentials-file: ./credentials.json\<newline>ingress:\<newline>'' @
           ''  - hostname: a.test\<newline>    service: http://localhost:8080\<newline>'' @
           ''  - service: http_status:404\<newline>'')"
  using fallback_chosen_by_first_route [OF creatable_fresh, of "''abc123''" "''./credentials.json''"
          "\<lparr>Hostname = ''a.test'', Service = ''http://localhost:8080''\<rparr>" "[]"
          "''my-tunnel''" 8080 "''a.test''"]
        fallback_chosen_by_first_route [OF creatable_fresh, of "''abc123''" "''./credentials.json''"
          "\<lparr>Hostname = ''a.test'', Service = ''tcp://localhost:22''\<rparr>"
          "[\<lparr>Hostname = ''b.test'', Service = ''http://localhost:80''\<rparr>]"]
  by (simp add: creatable_fresh config_path_def config_head_def route_block_def HasPrefix_def
        fmt_d_examples)

text \<open>
  Claim C5, as stated, fails on the empty routes list: the header is written and then
  \<open>routes[0]\<close> panics, so no path is returned.
\<close>

theorem config_path_empty_routes_counterexample:
  "snd (writeConfigFile fresh_world ''abc123'' ''./credentials.json'' []) =
     Inl (Panic ''runtime error: index out of range [0] with length 0'') \<and>
   snd (writeConfigFile fresh_world ''abc123'' ''./credentials.json'' []) \<noteq> Inr ''./abc123-config.yml''"
  using writeConfigFile_Nil(1) [OF creatable_fresh, of "''abc123''" "''./credentials.json''"]
  by simp

text \<open>
  Claim C5, amended. For every tunnel ID \<open>t\<close> and every non-empty routes list, when the
  file can be created, \<open>writeConfigFile\<close> returns the path \<open>./<t>-config.yml\<close>: the
  path depends on the tunnel ID alone, not on the routes or the credentials path. The
  writer of the root main.go, which takes no routes list, returns the same path.
\<close>

theorem config_path_deterministic:
  assumes "creatable w (config_path tunnelID)" and "routes \<noteq> []"
  shows "snd (writeConfigFile w tunnelID credentialsPath routes) = Inr (''./'' @ tunnelID @ ''-config.yml'') \<and>
         snd (writeConfigFile_main_go w tunnelName tunnelID port host credentialsPath) =
           Inr (''./'' @ tunnelID @ ''-config.yml'')"
proof -
  from assms(2) obtain r0 rest where "routes = r0 # rest"
    by (cases routes) auto
  with writeConfigFile_Cons(1) [OF assms(1), of credentialsPath r0 rest]
    writeConfigFile_Cons(1) [OF assms(1), of credentialsPath
      "\<lparr>Hostname = host, Service = ''http://localhost:'' @ fmt_d port\<rparr>" "[]"]
  show ?thesis
    by (simp add: config_path_def writeConfigFile_main_go_eq)
qed

theorem config_path_deterministic_witness:
  "creatable fresh_world (config_path ''abc123'') \<and>
   [\<lparr>Hostname = ''a.test'', Service = ''tcp://localhost:22''\<rparr>] \<noteq> [] \<and>
   snd (writeConfigFile fresh_world ''abc123'' ''./credentials.json''
          [\<lparr>Hostname = ''a.test'', Service = ''tcp://localhost:22''\<rparr>]) = Inr ''./abc123-config.yml'' \<and>
   snd (writeConfigFile_main_go fresh_world ''my-tunnel'' ''abc123'' 8080 ''a.test'' ''./credentials.json'') =
     Inr ''./abc123-config.yml''"
  using config_path_deterministic [OF creatable_fresh, of "[\<lparr>Hostname = ''a.test'', Service = ''tcp://localhost:22''\<rparr>]"
          "''abc123''" "''./credentials.json''" "''my-tunnel''" 8080 "''a.test''"]
  by (simp add: creatable_fresh)

text \<open>
  Claim C7, as stated, fails on the empty routes list: the file then holds the three
  header lines and no fallback line.
\<close>

theorem config_layout_empty_routes_counterexample:
  "content (fst (writeConfigFile fresh_world ''abc123'' ''./credentials.json'' [])) ''./abc123-config.yml'' =
     Some ''tunnel: abc123\<newline>credentials-file: ./credentials.json\<newline>ingress:\<newline>'' \<and>
   \<not> (\<exists>target. content (fst (writeConfigFile fresh_world ''abc123'' ''./credentials.json'' []))
                    ''./abc123-config.yml'' =
                  Some (config_head ''abc123'' ''./credentials.json'' @ concat (map route_block []) @
                        fallback_line target))"
  using writeConfigFile_Nil(2) [OF creatable_fresh, of "''abc123''" "''./credentials.json''"]
  by (simp add: config_path_def config_head_def fallback_line_def)

lemma writeConfigFile_part_000_content:
  assumes "creatable w (config_path tunnelName)"
  shows "content (fst (writeConfigFile_part_000 w tunnelName ports host credentialsPath))
           (config_path tunnelName) =
         Some (config_head tunnelName credentialsPath @
               concat (map (\<lambda>p. route_block \<lparr>Hostname = host, Service = ''http://localhost:'' @ fmt_d p\<rparr>) ports) @
               fallback_line ''http_status:404'')"
proof -
  from os_Create_creatable [OF assms] obtain w0 where
    c: "os_Create w (config_path tunnelName) = Inr w0" and e: "content w0 (config_path tunnelName) = Some []"
    by blast
  have "content (write_port_blocks
          (Fprint (Fprint (Fprint w0 (config_path tunnelName) (''tunnel: '' @ tunnelName @ ''\<newline>''))
             (config_path tunnelName) (''credentials-file: '' @ credentialsPath @ ''\<newline>''))
             (config_path tunnelName) ''ingress:\<newline>'')
          (config_path tunnelName) host ports) (config_path tunnelName)
        = Some (config_head tunnelName credentialsPath @
                concat (map (\<lambda>p. route_block \<lparr>Hostname = host, Service = ''http://localhost:'' @ fmt_d p\<rparr>) ports))"
    using e
    by (simp add: write_port_blocks_eq content_Fprint content_write_route_blocks config_head_def comp_def)
  then show ?thesis
    using c
    by (simp add: writeConfigFile_part_000_def Let_def config_path_def content_Fprint fallback_line_def)
qed

lemma single_line_decimal: "single_line (decimal n)"
proof (induction n rule: decimal.induct)
  case (1 n)
  have d: "\<And>k. k < 10 \<Longrightarrow> ''0123456789'' ! k \<noteq> CHR 0x0A"
  proof -
    fix k :: nat
    assume "k < 10"
    then have "''0123456789'' ! k \<in> set ''0123456789''"
      by (intro nth_mem) simp
    then show "''0123456789'' ! k \<noteq> CHR 0x0A"
      by auto
  qed
  show ?case
  proof (cases "n < 10")
    case True
    then show ?thesis
      using d [of n] by (subst decimal.simps) (simp add: single_line_def)
  next
    case False
    with 1 have "single_line (decimal (n div 10))" by simp
    with False d [of "n mod 10"] show ?thesis
      by (subst decimal.simps) (simp add: single_line_def)
  qed
qed

lemma single_line_fmt_d: "single_line (fmt_d i)"
  using single_line_decimal [of "nat i"] single_line_decimal [of "nat (- i)"]
  by (simp add: fmt_d_def single_line_def)

lemma route_lines_eq:
  "route_lines = (\<lambda>r. [''  - hostname: '' @ Hostname r, ''    service: '' @ Service r])"
  by (rule ext) (simp add: route_lines_def)

lemma route_block_eq:
  "route_block = (\<lambda>r. ''  - hostname: '' @ Hostname r @ ''\<newline>'' @ ''    service: '' @ Service r @ ''\<newline>'')"
  by (rule ext) (simp add: route_block_def)

lemma layout_lines:
  assumes "content w' p = Some (config_head t c @ concat (map route_block rs) @ fallback_line target)"
    and "single_line t" and "single_line c" and "single_line target"
    and "\<forall>r \<in> set rs. single_line (Hostname r) \<and> single_line (Service r)"
  shows "map_option lines_of (content w' p) =
           Some ([''tunnel: '' @ t, ''credentials-file: '' @ c, ''ingress:''] @
                 concat (map (\<lambda>r. [''  - hostname: '' @ Hostname r, ''    service: '' @ Service r]) rs) @
                 [''  - service: '' @ target])"
    and "map_option (\<lambda>text. length (filter (\<lambda>l. HasPrefix l ''  - service: '') (lines_of text)))
           (content w' p) = Some 1"
proof -
  note l = lines_of_config [OF assms(2,3,4,5)]
  show "map_option lines_of (content w' p) =
           Some ([''tunnel: '' @ t, ''credentials-file: '' @ c, ''ingress:''] @
                 concat (map (\<lambda>r. [''  - hostname: '' @ Hostname r, ''    service: '' @ Service r]) rs) @
                 [''  - service: '' @ target])"
    unfolding assms(1) route_lines_eq [symmetric] by (simp only: option.map l)
  show "map_option (\<lambda>text. length (filter (\<lambda>l. HasPrefix l ''  - service: '') (lines_of text)))
           (content w' p) = Some 1"
    unfolding assms(1) by (simp only: option.map l one_fallback_line)
qed


text \<open>
  Claim C7, amended. For every non-empty routes list, when the file can be created, the
  generated config is, byte for byte and in order: the tunnel line, the
  credentials-file line, the \<open>ingress:\<close> header, one hostname/service block per route
  in the order of the list, and the fallback line, whose target is \<open>http_status:404\<close>
  when the service of the first route begins with \<open>http://\<close> or \<open>https://\<close> and
  \<open>tcp://localhost:0\<close> otherwise; nothing else. When the tunnel ID, the credentials
  path and the fields of the routes hold no newline, the lines of the file are these
  lines, two per route, and exactly one of them is a fallback line. The config writer
  of part_000, whose fallback line is fixed, gives this layout for every list of ports,
  the empty one included.
\<close>

theorem config_layout:
  "(creatable w (config_path tunnelID) \<and> routes \<noteq> [] \<longrightarrow>
      content (fst (writeConfigFile w tunnelID credentialsPath routes)) (config_path tunnelID) =
        Some (''tunnel: '' @ tunnelID @ ''\<newline>'' @
              ''credentials-file: '' @ credentialsPath @ ''\<newline>'' @
              ''ingress:\<newline>'' @
              concat (map (\<lambda>r. ''  - hostname: '' @ Hostname r @ ''\<newline>'' @
                               ''    service: '' @ Service r @ ''\<newline>'') routes) @
              ''  - service: '' @
              (if HasPrefix (Service (hd routes)) ''http://'' \<or> HasPrefix (Service (hd routes)) ''https://''
               then ''http_status:404'' else ''tcp://localhost:0'') @ ''\<newline>'') \<and>
      (single_line tunnelID \<and> single_line credentialsPath \<and>
       (\<forall>r \<in> set routes. single_line (Hostname r) \<and> single_line (Service r)) \<longrightarrow>
         map_option lines_of
           (content (fst (writeConfigFile w tunnelID credentialsPath routes)) (config_path tunnelID)) =
           Some ([''tunnel: '' @ tunnelID, ''credentials-file: '' @ credentialsPath, ''ingress:''] @
                 concat (map (\<lambda>r. [''  - hostname: '' @ Hostname r, ''    service: '' @ Service r]) routes) @
                 [''  - service: '' @
                  (if HasPrefix (Service (hd routes)) ''http://'' \<or> HasPrefix (Service (hd routes)) ''https://''
                   then ''http_status:404'' else ''tcp://localhost:0'')]) \<and>
         map_option (\<lambda>text. length (filter (\<lambda>l. HasPrefix l ''  - service: '') (lines_of text)))
           (content (fst (writeConfigFile w tunnelID credentialsPath routes)) (config_path tunnelID)) =
           Some 1)) \<and>
   (creatable w (config_path tunnelName) \<longrightarrow>
      content (fst (writeConfigFile_part_000 w tunnelName ports host credentialsPath))
        (config_path tunnelName) =
        Some (''tunnel: '' @ tunnelName @ ''\<newline>'' @
              ''credentials-file: '' @ credentialsPath @ ''\<newline>'' @
              ''ingress:\<newline>'' @
              concat (map (\<lambda>p. ''  - hostname: '' @ host @ ''\<newline>'' @
                               ''    service: http://localhost:'' @ fmt_d p @ ''\<newline>'') ports) @
              ''  - service: http_status:404\<newline>'') \<and>
      (single_line tunnelName \<and> single_line credentialsPath \<and> single_line host \<longrightarrow>
         map_option lines_of
           (content (fst (writeConfigFile_part_000 w tunnelName ports host credentialsPath))
              (config_path tunnelName)) =
           Some ([''tunnel: '' @ tunnelName, ''credentials-file: '' @ credentialsPath, ''ingress:''] @
                 concat (map (\<lambda>p. [''  - hostname: '' @ host,
                                     ''    service: http://localhost:'' @ fmt_d p]) ports) @
                 [''  - service: http_status:404'']) \<and>
         map_option (\<lambda>text. length (filter (\<lambda>l. HasPrefix l ''  - service: '') (lines_of text)))
           (content (fst (writeConfigFile_part_000 w tunnelName ports host credentialsPath))
              (config_path tunnelName)) =
           Some 1))"
proof (intro conjI impI)
  let ?target = "if HasPrefix (Service (hd routes)) ''http://'' \<or> HasPrefix (Service (hd routes)) ''https://''
                 then ''http_status:404'' else ''tcp://localhost:0''"
  let ?file = "content (fst (writeConfigFile w tunnelID credentialsPath routes)) (config_path tunnelID)"
  assume a: "creatable w (config_path tunnelID) \<and> routes \<noteq> []"
  then obtain r0 rest where r: "routes = r0 # rest"
    by (cases routes) auto
  from a have "creatable w (config_path tunnelID)" by simp
  from writeConfigFile_Cons(2) [OF this, of credentialsPath r0 rest]
  have c: "?file = Some (config_head tunnelID credentialsPath @ concat (map route_block routes) @
                         fallback_line ?target)"
    unfolding r by simp
  show "?file =
        Some (''tunnel: '' @ tunnelID @ ''\<newline>'' @
              ''credentials-file: '' @ credentialsPath @ ''\<newline>'' @
              ''ingress:\<newline>'' @
              concat (map (\<lambda>r. ''  - hostname: '' @ Hostname r @ ''\<newline>'' @
                               ''    service: '' @ Service r @ ''\<newline>'') routes) @
              ''  - service: '' @ ?target @ ''\<newline>'')"
    unfolding c route_block_eq by (simp add: config_head_def fallback_line_def)
  assume s: "single_line tunnelID \<and> single_line credentialsPath \<and>
       (\<forall>r \<in> set routes. single_line (Hostname r) \<and> single_line (Service r))"
  have t: "single_line ?target"
    by (simp add: single_line_def)
  from s have s1: "single_line tunnelID" and s2: "single_line credentialsPath"
    and s3: "\<forall>r \<in> set routes. single_line (Hostname r) \<and> single_line (Service r)"
    by simp_all
  show "map_option lines_of ?file =
           Some ([''tunnel: '' @ tunnelID, ''credentials-file: '' @ credentialsPath, ''ingress:''] @
                 concat (map (\<lambda>r. [''  - hostname: '' @ Hostname r, ''    service: '' @ Service r]) routes) @
                 [''  - service: '' @ ?target])"
    by (rule layout_lines(1) [OF c s1 s2 t s3])
  show "map_option (\<lambda>text. length (filter (\<lambda>l. HasPrefix l ''  - service: '') (lines_of text))) ?file =
           Some 1"
    by (rule layout_lines(2) [OF c s1 s2 t s3])
next
  let ?rs = "map (\<lambda>p. \<lparr>Hostname = host, Service = ''http://localhost:'' @ fmt_d p\<rparr>) ports"
  let ?file = "content (fst (writeConfigFile_part_000 w tunnelName ports host credentialsPath))
        (config_path tunnelName)"
  assume "creatable w (config_path tunnelName)"
  from writeConfigFile_part_000_content [OF this, of ports host credentialsPath]
  have c: "?file = Some (config_head tunnelName credentialsPath @ concat (map route_block ?rs) @
                         fallback_line ''http_status:404'')"
    by (simp add: comp_def)
  show "?file =
        Some (''tunnel: '' @ tunnelName @ ''\<newline>'' @
              ''credentials-file: '' @ credentialsPath @ ''\<newline>'' @
              ''ingress:\<newline>'' @
              concat (map (\<lambda>p. ''  - hostname: '' @ host @ ''\<newline>'' @
                               ''    service: http://localhost:'' @ fmt_d p @ ''\<newline>'') ports) @
              ''  - service: http_status:404\<newline>'')"
    unfolding c by (simp add: config_head_def fallback_line_def route_block_def comp_def)
  assume s: "single_line tunnelName \<and> single_line credentialsPath \<and> single_line host"
  then have s1: "single_line tunnelName" and s2: "single_line credentialsPath"
    and s3: "\<forall>r \<in> set ?rs. single_line (Hostname r) \<and> single_line (Service r)"
    using single_line_fmt_d by (auto simp: single_line_def)
  have t: "single_line ''http_status:404''"
    by (simp add: single_line_def)
  from layout_lines(1) [OF c s1 s2 t s3]
  show "map_option lines_of ?file =
           Some ([''tunnel: '' @ tunnelName, ''credentials-file: '' @ credentialsPath, ''ingress:''] @
                 concat (map (\<lambda>p. [''  - hostname: '' @ host,
                                     ''    service: http://localhost:'' @ fmt_d p]) ports) @
                 [''  - service: http_status:404''])"
    by (simp add: comp_def)
  show "map_option (\<lambda>text. length (filter (\<lambda>l. HasPrefix l ''  - service: '') (lines_of text))) ?file =
           Some 1"
    by (rule layout_lines(2) [OF c s1 s2 t s3])
qed


theorem config_layout_witness:
  "creatable fresh_world (config_path ''abc123'') \<and>
   [\<lparr>Hostname = ''a.test'', Service = ''tcp://localhost:22''\<rparr>,
    \<lparr>Hostname = ''p.test'', Service = ''http://localhost:1080''\<rparr>] \<noteq> [] \<and>
   single_line ''abc123'' \<and> single_line ''./credentials.json'' \<and> single_line ''a.test'' \<and>
   single_line ''tcp://localhost:22'' \<and> single_line ''p.test'' \<and>
   single_line ''http://localhost:1080'' \<and>
   content (fst (writeConfigFile fresh_world ''abc123'' ''./credentials.json''
              [\<lparr>Hostname = ''a.test'', Service = ''tcp://localhost:22''\<rparr>,
               \<lparr>Hostname = ''p.test'', Service = ''http://localhost:1080''\<rparr>])) ''./abc123-config.yml'' =
     Some (''tunnel: abc123\<newline>credentials-file: ./credentials.json\<newline>ingress:\<newline>'' @
           ''  - hostname: a.test\<newline>    service: tcp://localhost:22\<newline>'' @
           ''  - hostname: p.test\<newline>    service: http://localhost:1080\<newline>'' @
           ''  - service: tcp://localhost:0\<newline>'') \<and>
   map_option lines_of
     (content (fst (writeConfigFile fresh_world ''abc123'' ''./credentials.json''
                 [\<lparr>Hostname = ''a.test'', Service = ''tcp://localhost:22''\<rparr>,
                  \<lparr>Hostname = ''p.test'', Service = ''http://localhost:1080''\<rparr>])) ''./abc123-config.yml'') =
     Some [''tunnel: abc123'', ''credentials-file: ./credentials.json'', ''ingress:'',
           ''  - hostname: a.test'', ''    service: tcp://localhost:22'',
           ''  - hostname: p.test'', ''    service: http://localhost:1080'',
           ''  - service: tcp://localhost:0''] \<and>
   map_option (\<lambda>text. length (filter (\<lambda>l. HasPrefix l ''  - service: '') (lines_of text)))
     (content (fst (writeConfigFile fresh_world ''abc123'' ''./credentials.json''
                 [\<lparr>Hostname = ''a.test'', Service = ''tcp://localhost:22''\<rparr>,
                  \<lparr>Hostname = ''p.test'', Service = ''http://localhost:1080''\<rparr>])) ''./abc123-config.yml'') =
     Some 1 \<and>
   content (fst (writeConfigFile_part_000 fresh_world ''abc123'' [3000, 5173] ''a.test''
              ''./credentials.json'')) ''./abc123-config.yml'' =
     Some (''tunnel: abc123\<newline>credentials-file: ./credentials.json\<newline>ingress:\<newline>'' @
           ''  - hostname: a.test\<newline>    service: http://localhost:3000\<newline>'' @
           ''  - hostname: a.test\<newline>    service: http://localhost:5173\<newline>'' @
           ''  - service: http_status:404\<newline>'') \<and>
   map_option lines_of
     (content (fst (writeConfigFile_part_000 fresh_world ''abc123'' [3000, 5173] ''a.test''
                 ''./credentials.json'')) ''./abc123-config.yml'') =
     Some [''tunnel: abc123'', ''credentials-file: ./credentials.json'', ''ingress:'',
           ''  - hostname: a.test'', ''    service: http://localhost:3000'',
           ''  - hostname: a.test'', ''    service: http://localhost:5173'',
           ''  - service: http_status:404''] \<and>
   map_option lines_of
     (content (fst (writeConfigFile_part_000 fresh_world ''abc123'' [] ''a.test''
                 ''./credentials.json'')) ''./abc123-config.yml'') =
     Some [''tunnel: abc123'', ''credentials-file: ./credentials.json'', ''ingress:'',
           ''  - service: http_status:404'']"
proof -
  let ?routes = "[\<lparr>Hostname = ''a.test'', Service = ''tcp://localhost:22''\<rparr>,
                  \<lparr>Hostname = ''p.test'', Service = ''http://localhost:1080''\<rparr>]"
  have s: "single_line ''abc123''" "single_line ''./credentials.json''" "single_line ''a.test''"
    "single_line ''tcp://localhost:22''" "single_line ''p.test''" "single_line ''http://localhost:1080''"
    by (simp_all add: single_line_def)
  have sr: "\<forall>r \<in> set ?routes. single_line (Hostname r) \<and> single_line (Service r)"
    using s by simp
  have h: "\<not> HasPrefix ''tcp://localhost:22'' ''http://''" "\<not> HasPrefix ''tcp://localhost:22'' ''https://''"
    by (simp_all add: HasPrefix_def)
  have c: "creatable fresh_world (config_path ''abc123'')"
    by (rule creatable_fresh)
  have n: "?routes \<noteq> []"
    by simp
  have p: "config_path ''abc123'' = ''./abc123-config.yml''"
    by (simp add: config_path_def)
  note A = config_layout [of fresh_world "''abc123''" ?routes "''./credentials.json''"
             "''abc123''" "[3000, 5173]" "''a.test''"]
  note B = config_layout [of fresh_world "''abc123''" ?routes "''./credentials.json''"
             "''abc123''" "[]" "''a.test''"]
  note A1 = A [THEN conjunct1, THEN mp, OF conjI [OF c n]]
  note A2 = A1 [THEN conjunct2, THEN mp, OF conjI [OF s(1) conjI [OF s(2) sr]]]
  note A3 = A [THEN conjunct2, THEN mp, OF c]
  note A4 = A3 [THEN conjunct2, THEN mp, OF conjI [OF s(1) conjI [OF s(2) s(3)]]]
  note B3 = B [THEN conjunct2, THEN mp, OF c]
  note B4 = B3 [THEN conjunct2, THEN mp, OF conjI [OF s(1) conjI [OF s(2) s(3)]]]
  have c1: "content (fst (writeConfigFile fresh_world ''abc123'' ''./credentials.json'' ?routes))
              ''./abc123-config.yml'' =
     Some (''tunnel: abc123\<newline>credentials-file: ./credentials.json\<newline>ingress:\<newline>'' @
           ''  - hostname: a.test\<newline>    service: tcp://localhost:22\<newline>'' @
           ''  - hostname: p.test\<newline>    service: http://localhost:1080\<newline>'' @
           ''  - service: tcp://localhost:0\<newline>'')"
    using A1 [THEN conjunct1] by (simp add: p h)
  have c2: "map_option lines_of
     (content (fst (writeConfigFile fresh_world ''abc123'' ''./credentials.json'' ?routes))
        ''./abc123-config.yml'') =
     Some [''tunnel: abc123'', ''credentials-file: ./credentials.json'', ''ingress:'',
           ''  - hostname: a.test'', ''    service: tcp://localhost:22'',
           ''  - hostname: p.test'', ''    service: http://localhost:1080'',
           ''  - service: tcp://localhost:0'']"
    using A2 [THEN conjunct1] by (simp add: p h del: map_option_eq_Some)
  have c3: "map_option (\<lambda>text. length (filter (\<lambda>l. HasPrefix l ''  - service: '') (lines_of text)))
     (content (fst (writeConfigFile fresh_world ''abc123'' ''./credentials.json'' ?routes))
        ''./abc123-config.yml'') = Some 1"
    using A2 [THEN conjunct2] by (simp add: p del: map_option_eq_Some)
  have d1: "content (fst (writeConfigFile_part_000 fresh_world ''abc123'' [3000, 5173] ''a.test''
              ''./credentials.json'')) ''./abc123-config.yml'' =
     Some (''tunnel: abc123\<newline>credentials-file: ./credentials.json\<newline>ingress:\<newline>'' @
           ''  - hostname: a.test\<newline>    service: http://localhost:3000\<newline>'' @
           ''  - hostname: a.test\<newline>    service: http://localhost:5173\<newline>'' @
           ''  - service: http_status:404\<newline>'')"
    using A3 [THEN conjunct1] by (simp add: p fmt_d_examples)
  have d2: "map_option lines_of
     (content (fst (writeConfigFile_part_000 fresh_world ''abc123'' [3000, 5173] ''a.test''
                 ''./credentials.json'')) ''./abc123-config.yml'') =
     Some [''tunnel: abc123'', ''credentials-file: ./credentials.json'', ''ingress:'',
           ''  - hostname: a.test'', ''    service: http://localhost:3000'',
           ''  - hostname: a.test'', ''    service: http://localhost:5173'',
           ''  - service: http_status:404'']"
    using A4 [THEN conjunct1] by (simp add: p fmt_d_examples del: map_option_eq_Some)
  have d3: "map_option lines_of
     (content (fst (writeConfigFile_part_000 fresh_world ''abc123'' [] ''a.test''
                 ''./credentials.json'')) ''./abc123-config.yml'') =
     Some [''tunnel: abc123'', ''credentials-file: ./credentials.json'', ''ingress:'',
           ''  - service: http_status:404'']"
    using B4 [THEN conjunct1] by (simp add: p del: map_option_eq_Some)
  from c n s c1 c2 c3 d1 d2 d3 show ?thesis
    by blast
qed

section \<open>The zone/DNS client\<close>

lemma cloudflareAPIRequest_world:
  "fst (cloudflareAPIRequest E w method url apiToken payload) =
     (if url_error E url = None
      then w\<lparr>zone := fst (roundtrip E (zone w)
                  \<lparr>Method = method, URL = url, Authorization = ''Bearer '' @ apiToken,
                   ContentType = ''application/json'', Body = payload\<rparr>),
             trace := trace w @ [Request \<lparr>Method = method, URL = url,
                   Authorization = ''Bearer '' @ apiToken,
                   ContentType = ''application/json'', Body = payload\<rparr>]\<rparr>
      else w)"
  by (simp add: cloudflareAPIRequest_def Let_def split: option.splits prod.splits sum.splits)

lemma cloudflareAPIRequest_result:
  "snd (cloudflareAPIRequest E w method url apiToken payload) =
     (case url_error E url of
        Some err \<Rightarrow> Inl (''failed to create API request: '' @ err)
      | None \<Rightarrow>
         (case snd (roundtrip E (zone w)
                  \<lparr>Method = method, URL = url, Authorization = ''Bearer '' @ apiToken,
                   ContentType = ''application/json'', Body = payload\<rparr>) of
            Inl err \<Rightarrow> Inl (''API request failed: '' @ err)
          | Inr resp \<Rightarrow>
             if StatusCode resp \<ge> 400 then Inl (''API error: '' @ RespBody resp)
             else Inr (RespBody resp)))"
  by (simp add: cloudflareAPIRequest_def Let_def split: option.splits prod.splits sum.splits)

lemma cloudflareAPIRequest_main_go_world:
  "fst (cloudflareAPIRequest_main_go E w method url apiToken payload) =
   fst (cloudflareAPIRequest E w method url apiToken payload)"
  by (simp add: cloudflareAPIRequest_def cloudflareAPIRequest_main_go_def Let_def
      split: option.splits prod.splits sum.splits)

lemma cloudflareAPIRequest_main_go_result:
  "snd (cloudflareAPIRequest_main_go E w method url apiToken payload) =
     (case url_error E url of
        Some err \<Rightarrow> Inr (Inl err)
      | None \<Rightarrow>
         (case snd (roundtrip E (zone w)
                  \<lparr>Method = method, URL = url, Authorization = ''Bearer '' @ apiToken,
                   ContentType = ''application/json'', Body = payload\<rparr>) of
            Inl err \<Rightarrow> Inr (Inl err)
          | Inr resp \<Rightarrow>
             if StatusCode resp \<ge> 400
             then Inl (Fatal (''Cloudflare API request failed: '' @ RespBody resp @ ''\<newline>''))
             else Inr (Inr (RespBody resp))))"
  by (simp add: cloudflareAPIRequest_main_go_def Let_def split: option.splits prod.splits sum.splits)

lemma dnsRecordExists_world:
  "fst (dnsRecordExists E w zoneID domain apiToken) =
   fst (cloudflareAPIRequest E w ''GET'' (URL (lookup_request zoneID domain apiToken)) apiToken [])"
  by (simp add: dnsRecordExists_def lookup_request_def Let_def split: prod.splits sum.splits)

lemma dnsRecordExists_result:
  "snd (dnsRecordExists E w zoneID domain apiToken) =
     (case snd (cloudflareAPIRequest E w ''GET'' (URL (lookup_request zoneID domain apiToken)) apiToken []) of
        Inl err \<Rightarrow> Inl (Fatal (''Failed to query DNS record: '' @ err))
      | Inr resp \<Rightarrow>
         (case unmarshal_DNSQuery E resp of
            Inl err \<Rightarrow> Inl (Fatal (''Failed to parse DNS record response: '' @ err))
          | Inr result \<Rightarrow> Inr (Result result \<noteq> [])))"
  by (simp add: dnsRecordExists_def lookup_request_def Let_def split: prod.splits sum.splits)

lemma dnsRecordExists_main_go_world:
  "fst (dnsRecordExists_main_go E w zoneID domain apiToken) = fst (dnsRecordExists E w zoneID domain apiToken)"
  by (simp add: dnsRecordExists_main_go_def dnsRecordExists_world lookup_request_def Let_def
      cloudflareAPIRequest_main_go_world [symmetric] split: prod.splits sum.splits)

lemma dnsRecordExists_main_go_result:
  "snd (dnsRecordExists_main_go E w zoneID domain apiToken) =
     (case snd (cloudflareAPIRequest_main_go E w ''GET'' (URL (lookup_request zoneID domain apiToken)) apiToken []) of
        Inl f \<Rightarrow> Inl f
      | Inr (Inl err) \<Rightarrow> Inl (Fatal (''Failed to query DNS record: '' @ err))
      | Inr (Inr resp) \<Rightarrow>
         (case unmarshal_DNSQuery E resp of
            Inl err \<Rightarrow> Inl (Fatal (''Failed to parse DNS record query response: '' @ err))
          | Inr result \<Rightarrow> Inr (Result result \<noteq> [])))"
  by (simp add: dnsRecordExists_main_go_def lookup_request_def Let_def split: prod.splits sum.splits)

lemma ensureDNSRecord_world:
  "fst (ensureDNSRecord E w zoneID domain tunnelID apiToken) =
     (if snd (dnsRecordExists E w zoneID domain apiToken) = Inr False
      then fst (cloudflareAPIRequest E (fst (dnsRecordExists E w zoneID domain apiToken)) ''POST''
                  (URL (create_request E zoneID domain tunnelID apiToken)) apiToken
                  (Body (create_request E zoneID domain tunnelID apiToken)))
      else fst (dnsRecordExists E w zoneID domain apiToken))"
  by (simp add: ensureDNSRecord_def create_request_def Let_def split_beta split: sum.splits)

lemma ensureDNSRecord_result:
  "snd (ensureDNSRecord E w zoneID domain tunnelID apiToken) =
     (case snd (dnsRecordExists E w zoneID domain apiToken) of
        Inl f \<Rightarrow> Inl f
      | Inr exists \<Rightarrow>
         if exists then Inr ()
         else (case snd (cloudflareAPIRequest E (fst (dnsRecordExists E w zoneID domain apiToken)) ''POST''
                  (URL (create_request E zoneID domain tunnelID apiToken)) apiToken
                  (Body (create_request E zoneID domain tunnelID apiToken))) of
                 Inl err \<Rightarrow> Inl (Fatal (''Failed to create DNS record: '' @ err))
               | Inr resp \<Rightarrow> Inr ()))"
  by (simp add: ensureDNSRecord_def create_request_def Let_def split_beta split: sum.splits)

lemma dnsRecordExists_main_go_eq:
  "snd (dnsRecordExists_main_go E w zoneID domain apiToken) = Inr b \<longleftrightarrow>
   snd (dnsRecordExists E w zoneID domain apiToken) = Inr b"
  by (auto simp: dnsRecordExists_main_go_result dnsRecordExists_result
        cloudflareAPIRequest_main_go_result cloudflareAPIRequest_result
      split: sum.splits option.splits)

lemma ensureDNSRecord_main_go_world:
  "fst (ensureDNSRecord_main_go E w zoneID domain tunnelID apiToken) =
   fst (ensureDNSRecord E w zoneID domain tunnelID apiToken)"
proof -
  have "fst (ensureDNSRecord_main_go E w zoneID domain tunnelID apiToken) =
     (if snd (dnsRecordExists_main_go E w zoneID domain apiToken) = Inr False
      then fst (cloudflareAPIRequest_main_go E (fst (dnsRecordExists_main_go E w zoneID domain apiToken)) ''POST''
                  (URL (create_request E zoneID domain tunnelID apiToken)) apiToken
                  (Body (create_request E zoneID domain tunnelID apiToken)))
      else fst (dnsRecordExists_main_go E w zoneID domain apiToken))"
    by (simp add: ensureDNSRecord_main_go_def create_request_def Let_def split_beta split: sum.splits)
  then show ?thesis
    by (simp add: ensureDNSRecord_world dnsRecordExists_main_go_eq dnsRecordExists_main_go_world
          cloudflareAPIRequest_main_go_world)
qed

lemma ensureDNSRecord_main_go_ok:
  "snd (ensureDNSRecord_main_go E w zoneID domain tunnelID apiToken) = Inr () \<longleftrightarrow>
   snd (ensureDNSRecord E w zoneID domain tunnelID apiToken) = Inr ()"
proof -
  have "snd (ensureDNSRecord_main_go E w zoneID domain tunnelID apiToken) =
     (case snd (dnsRecordExists_main_go E w zoneID domain apiToken) of
        Inl f \<Rightarrow> Inl f
      | Inr exists \<Rightarrow>
         if exists then Inr ()
         else (case snd (cloudflareAPIRequest_main_go E (fst (dnsRecordExists_main_go E w zoneID domain apiToken)) ''POST''
                  (URL (create_request E zoneID domain tunnelID apiToken)) apiToken
                  (Body (create_request E zoneID domain tunnelID apiToken))) of
                 Inl f \<Rightarrow> Inl f
               | Inr (Inl err) \<Rightarrow> Inl (Fatal (''Failed to create DNS record: '' @ err))
               | Inr (Inr resp) \<Rightarrow> Inr ()))"
    by (simp add: ensureDNSRecord_main_go_def create_request_def Let_def split_beta split: sum.splits)
  moreover have "snd (dnsRecordExists_main_go E w zoneID domain apiToken) = Inr True \<longleftrightarrow>
      snd (dnsRecordExists E w zoneID domain apiToken) = Inr True"
      "snd (dnsRecordExists_main_go E w zoneID domain apiToken) = Inr False \<longleftrightarrow>
      snd (dnsRecordExists E w zoneID domain apiToken) = Inr False"
    by (simp_all add: dnsRecordExists_main_go_eq)
  ultimately show ?thesis
    by (auto simp: ensureDNSRecord_result dnsRecordExists_main_go_world
          cloudflareAPIRequest_main_go_result cloudflareAPIRequest_result
        split: sum.splits option.splits if_splits)
qed

text \<open>
  Claim C6, as stated, fails on a response whose status is neither 2xx nor 400 or more:
  with status 300 and a body that decodes to an empty result set, \<open>dnsRecordExists\<close>
  returns \<open>false\<close>, in part_001 and in the root main.go.
\<close>

theorem record_exists_status_300_counterexample:
  "snd (dnsRecordExists multiple_choices_env fresh_world ''zone'' ''a.test'' ''tok'') = Inr False \<and>
   snd (dnsRecordExists_main_go multiple_choices_env fresh_world ''zone'' ''a.test'' ''tok'') = Inr False"
  by (simp add: dnsRecordExists_result dnsRecordExists_main_go_result cloudflareAPIRequest_result
        cloudflareAPIRequest_main_go_result multiple_choices_env_def fake_env_def
        fake_unmarshal_DNSQuery_def)

text \<open>
  Claim C6, amended. \<open>dnsRecordExists\<close> returns a boolean only when the lookup was
  answered with a status below 400 and the body decodes; the boolean is then true if and
  only if the decoded result set is non-empty. On a transport error, and on a response
  with status 400 or more, it returns no boolean: the process ends in \<open>log.Fatalf\<close>
  (in the root main.go, for the status, inside \<open>cloudflareAPIRequest\<close>).
\<close>

theorem record_exists_verdict:
  assumes "url_error E (URL (lookup_request zoneID domain apiToken)) = None"
  shows
    "(\<forall>err. snd (roundtrip E (zone w) (lookup_request zoneID domain apiToken)) = Inl err \<longrightarrow>
        snd (dnsRecordExists E w zoneID domain apiToken) =
          Inl (Fatal (''Failed to query DNS record: API request failed: '' @ err)) \<and>
        snd (dnsRecordExists_main_go E w zoneID domain apiToken) =
          Inl (Fatal (''Failed to query DNS record: '' @ err))) \<and>
     (\<forall>resp. snd (roundtrip E (zone w) (lookup_request zoneID domain apiToken)) = Inr resp \<and>
          StatusCode resp \<ge> 400 \<longrightarrow>
        snd (dnsRecordExists E w zoneID domain apiToken) =
          Inl (Fatal (''Failed to query DNS record: API error: '' @ RespBody resp)) \<and>
        snd (dnsRecordExists_main_go E w zoneID domain apiToken) =
          Inl (Fatal (''Cloudflare API request failed: '' @ RespBody resp @ ''\<newline>''))) \<and>
     (\<forall>resp q. snd (roundtrip E (zone w) (lookup_request zoneID domain apiToken)) = Inr resp \<and>
          StatusCode resp < 400 \<and> unmarshal_DNSQuery E (RespBody resp) = Inr q \<longrightarrow>
        snd (dnsRecordExists E w zoneID domain apiToken) = Inr (Result q \<noteq> []) \<and>
        snd (dnsRecordExists_main_go E w zoneID domain apiToken) = Inr (Result q \<noteq> [])) \<and>
     (\<forall>b. snd (dnsRecordExists E w zoneID domain apiToken) = Inr b \<longrightarrow>
        (\<exists>resp q. snd (roundtrip E (zone w) (lookup_request zoneID domain apiToken)) = Inr resp \<and>
           StatusCode resp < 400 \<and> unmarshal_DNSQuery E (RespBody resp) = Inr q \<and>
           b = (Result q \<noteq> [])))"
  using assms
  by (auto simp: dnsRecordExists_result dnsRecordExists_main_go_result cloudflareAPIRequest_result
        cloudflareAPIRequest_main_go_result lookup_request_def
      split: sum.splits option.splits if_splits)

theorem record_exists_verdict_witness:
  \<open>url_error fake_env (URL (lookup_request ''zone'' ''a.test'' ''tok'')) = None \<and>
   snd (dnsRecordExists unreachable_env fresh_world ''zone'' ''a.test'' ''tok'') =
     Inl (Fatal ''Failed to query DNS record: API request failed: dial tcp: connection refused'') \<and>
   snd (dnsRecordExists_main_go unreachable_env fresh_world ''zone'' ''a.test'' ''tok'') =
     Inl (Fatal ''Failed to query DNS record: dial tcp: connection refused'') \<and>
   snd (dnsRecordExists forbidden_env fresh_world ''zone'' ''a.test'' ''tok'') =
     Inl (Fatal ''Failed to query DNS record: API error: {"success":false}'') \<and>
   snd (dnsRecordExists_main_go forbidden_env fresh_world ''zone'' ''a.test'' ''tok'') =
     Inl (Fatal ''Cloudflare API request failed: {"success":false}\<newline>'') \<and>
   snd (dnsRecordExists fake_env fresh_world ''zone'' ''a.test'' ''tok'') = Inr False \<and>
   snd (dnsRecordExists fake_env (fresh_world\<lparr>zone := 1\<rparr>) ''zone'' ''a.test'' ''tok'') = Inr True \<and>
   snd (dnsRecordExists_main_go fake_env (fresh_world\<lparr>zone := 1\<rparr>) ''zone'' ''a.test'' ''tok'') = Inr True\<close>
proof -
  have u: "\<And>E. url_error E = url_error fake_env \<Longrightarrow>
      url_error E (URL (lookup_request ''zone'' ''a.test'' ''tok'')) = None"
    by (simp add: fake_env_def)
  have e1: "url_error unreachable_env = url_error fake_env"
    and e2: "url_error forbidden_env = url_error fake_env"
    by (simp_all add: unreachable_env_def forbidden_env_def)
  have r1: "snd (roundtrip unreachable_env (zone fresh_world) (lookup_request ''zone'' ''a.test'' ''tok'')) =
      Inl ''dial tcp: connection refused''"
    by (simp add: unreachable_env_def)
  have r2: \<open>snd (roundtrip forbidden_env (zone fresh_world) (lookup_request ''zone'' ''a.test'' ''tok'')) =
      Inr \<lparr>StatusCode = 403, RespBody = ''{"success":false}''\<rparr>\<close>
    by (simp add: forbidden_env_def)
  have r3: \<open>snd (roundtrip fake_env (zone fresh_world) (lookup_request ''zone'' ''a.test'' ''tok'')) =
      Inr \<lparr>StatusCode = 200, RespBody = ''{"success":true,"result":[]}''\<rparr>\<close>
    by (simp add: fake_env_def fake_roundtrip_def fresh_world_def lookup_request_def)
  have r4: \<open>snd (roundtrip fake_env (zone (fresh_world\<lparr>zone := 1\<rparr>)) (lookup_request ''zone'' ''a.test'' ''tok'')) =
      Inr \<lparr>StatusCode = 200, RespBody = ''{"success":true,"result":[{}]}''\<rparr>\<close>
    by (simp add: fake_env_def fake_roundtrip_def lookup_request_def)
  have q3: \<open>unmarshal_DNSQuery fake_env ''{"success":true,"result":[]}'' = Inr \<lparr>Success = True, Result = []\<rparr>\<close>
    and q4: \<open>unmarshal_DNSQuery fake_env ''{"success":true,"result":[{}]}'' =
      Inr \<lparr>Success = True, Result = [\<lparr>ID = [], Type = [], Name = [], Value = []\<rparr>]\<rparr>\<close>
    by (simp_all add: fake_env_def fake_unmarshal_DNSQuery_def)
  show ?thesis
    using r1 r2 r3 r4 q3 q4 u [OF refl]
      record_exists_verdict [OF u [OF e1], of fresh_world]
      record_exists_verdict [OF u [OF e2], of fresh_world]
      record_exists_verdict [OF u [OF refl], of fresh_world]
      record_exists_verdict [OF u [OF refl], of "fresh_world\<lparr>zone := 1\<rparr>"]
    by simp
qed

lemma dnsRecordExists_trace:
  "trace (fst (dnsRecordExists E w zoneID domain apiToken)) =
     (if url_error E (URL (lookup_request zoneID domain apiToken)) = None
      then trace w @ [Request (lookup_request zoneID domain apiToken)] else trace w)"
  by (simp add: dnsRecordExists_world cloudflareAPIRequest_world lookup_request_def)

lemma dnsRecordExists_Inr_url:
  "snd (dnsRecordExists E w zoneID domain apiToken) = Inr b \<Longrightarrow>
   url_error E (URL (lookup_request zoneID domain apiToken)) = None"
  by (auto simp: dnsRecordExists_result cloudflareAPIRequest_result split: option.splits sum.splits)

lemma ensureDNSRecord_present:
  "snd (dnsRecordExists E w zoneID domain apiToken) = Inr True \<Longrightarrow>
   ensureDNSRecord E w zoneID domain tunnelID apiToken =
     (fst (dnsRecordExists E w zoneID domain apiToken), Inr ())"
  by (simp add: prod_eq_iff ensureDNSRecord_world ensureDNSRecord_result)

lemma ensureDNSRecord_trace_absent:
  "snd (dnsRecordExists E w zoneID domain apiToken) = Inr False \<Longrightarrow>
   trace (fst (ensureDNSRecord E w zoneID domain tunnelID apiToken)) =
     trace (fst (dnsRecordExists E w zoneID domain apiToken)) @
     (if url_error E (URL (create_request E zoneID domain tunnelID apiToken)) = None
      then [Request (create_request E zoneID domain tunnelID apiToken)] else [])"
  by (simp add: ensureDNSRecord_world cloudflareAPIRequest_world create_request_def)

lemma ensureDNSRecord_trace_other:
  "snd (dnsRecordExists E w zoneID domain apiToken) \<noteq> Inr False \<Longrightarrow>
   trace (fst (ensureDNSRecord E w zoneID domain tunnelID apiToken)) =
     trace (fst (dnsRecordExists E w zoneID domain apiToken))"
  by (simp add: ensureDNSRecord_world)

lemma ensureDNSRecord_trace:
  "trace (fst (ensureDNSRecord E w zoneID domain tunnelID apiToken)) \<in>
     {trace w,
      trace w @ [Request (lookup_request zoneID domain apiToken)],
      trace w @ [Request (lookup_request zoneID domain apiToken),
                 Request (create_request E zoneID domain tunnelID apiToken)]}"
proof (cases "snd (dnsRecordExists E w zoneID domain apiToken) = Inr False")
  case True
  from dnsRecordExists_Inr_url [OF True] ensureDNSRecord_trace_absent [OF True, of tunnelID]
  show ?thesis by (simp add: dnsRecordExists_trace)
next
  case False
  from ensureDNSRecord_trace_other [OF False, of tunnelID]
  show ?thesis by (simp add: dnsRecordExists_trace)
qed

lemma create_calls_append: "create_calls (xs @ ys) = create_calls xs + create_calls ys"
  by (simp add: create_calls_def)

lemma create_calls_lookup: "create_calls [Request (lookup_request zoneID domain apiToken)] = 0"
  by (simp add: create_calls_def lookup_request_def)

lemma create_calls_lookup_create:
  "create_calls [Request (lookup_request zoneID domain apiToken),
                 Request (create_request E zoneID domain tunnelID apiToken)] = 1"
  by (simp add: create_calls_def create_request_def lookup_request_def)

lemma ensureDNSRecord_create_calls:
  "create_calls (trace (fst (ensureDNSRecord E w zoneID domain tunnelID apiToken))) \<le>
   create_calls (trace w) + 1"
  using ensureDNSRecord_trace [of E w zoneID domain tunnelID apiToken]
    create_calls_lookup [of zoneID domain apiToken]
    create_calls_lookup_create [of zoneID domain apiToken E tunnelID]
  by (auto simp: create_calls_append simp del: append.simps)

lemma fake_first_call:
  "ensureDNSRecord fake_env fresh_world ''zone'' ''a.test'' ''abc123'' ''tok'' =
     (fresh_world\<lparr>zone := 1,
        trace := [Request (lookup_request ''zone'' ''a.test'' ''tok''),
                  Request (create_request fake_env ''zone'' ''a.test'' ''abc123'' ''tok'')]\<rparr>,
      Inr ())"
  by (simp add: ensureDNSRecord_def dnsRecordExists_def cloudflareAPIRequest_def Let_def
        fake_env_def fake_roundtrip_def fake_unmarshal_DNSQuery_def fresh_world_def
        lookup_request_def create_request_def)

lemma fake_lookup_bound:
  "zone w \<noteq> 0 \<Longrightarrow> snd (dnsRecordExists fake_env w ''zone'' ''a.test'' ''tok'') = Inr True"
  by (simp add: dnsRecordExists_def cloudflareAPIRequest_def Let_def
        fake_env_def fake_roundtrip_def fake_unmarshal_DNSQuery_def)

text \<open>
  Claim C8. When the lookup finds no record, the one request \<open>ensureDNSRecord\<close> then
  issues is the create call, and its body is the JSON of a record of type \<open>CNAME\<close>
  whose name is the hostname asked for and whose content is the tunnel ID followed by
  \<open>.cfargotunnel.com\<close>, for every tunnel ID and hostname; it is sent to the zone's
  \<open>dns_records\<close> collection and changes the zone as the API decides. (A zone ID for
  which \<open>http.NewRequest\<close> refuses the URL gives no request.) The root main.go issues
  the same request.
\<close>

theorem create_request_is_cname:
  assumes "snd (dnsRecordExists E w zoneID domain apiToken) = Inr False"
    and "url_error E (''https://api.cloudflare.com/client/v4/zones/'' @ zoneID @ ''/dns_records'') = None"
  shows "trace (fst (ensureDNSRecord E w zoneID domain tunnelID apiToken)) =
           trace (fst (dnsRecordExists E w zoneID domain apiToken)) @
           [Request \<lparr>Method = ''POST'',
                     URL = ''https://api.cloudflare.com/client/v4/zones/'' @ zoneID @ ''/dns_records'',
                     Authorization = ''Bearer '' @ apiToken,
                     ContentType = ''application/json'',
                     Body = json_Marshal_DNSRecord E
                              \<lparr>ID = [], Type = ''CNAME'', Name = domain,
                               Value = tunnelID @ ''.cfargotunnel.com''\<rparr>\<rparr>] \<and>
         zone (fst (ensureDNSRecord E w zoneID domain tunnelID apiToken)) =
           fst (roundtrip E (zone (fst (dnsRecordExists E w zoneID domain apiToken)))
                  \<lparr>Method = ''POST'',
                   URL = ''https://api.cloudflare.com/client/v4/zones/'' @ zoneID @ ''/dns_records'',
                   Authorization = ''Bearer '' @ apiToken,
                   ContentType = ''application/json'',
                   Body = json_Marshal_DNSRecord E
                            \<lparr>ID = [], Type = ''CNAME'', Name = domain,
                             Value = tunnelID @ ''.cfargotunnel.com''\<rparr>\<rparr>) \<and>
         fst (ensureDNSRecord_main_go E w zoneID domain tunnelID apiToken) =
           fst (ensureDNSRecord E w zoneID domain tunnelID apiToken)"
  using assms
  by (simp add: ensureDNSRecord_main_go_world ensureDNSRecord_world cloudflareAPIRequest_world
        create_request_def)

theorem create_request_is_cname_witness:
  \<open>snd (dnsRecordExists fake_env fresh_world ''zone'' ''a.test'' ''tok'') = Inr False \<and>
   url_error fake_env (''https://api.cloudflare.com/client/v4/zones/'' @ ''zone'' @ ''/dns_records'') = None \<and>
   trace (fst (ensureDNSRecord fake_env fresh_world ''zone'' ''a.test'' ''abc123'' ''tok'')) =
     trace (fst (dnsRecordExists fake_env fresh_world ''zone'' ''a.test'' ''tok'')) @
     [Request \<lparr>Method = ''POST'',
               URL = ''https://api.cloudflare.com/client/v4/zones/zone/dns_records'',
               Authorization = ''Bearer tok'',
               ContentType = ''application/json'',
               Body = ''{"id":"","type":"CNAME","name":"a.test","content":"abc123.cfargotunnel.com"}''\<rparr>] \<and>
   zone (fst (ensureDNSRecord fake_env fresh_world ''zone'' ''a.test'' ''abc123'' ''tok'')) = 1\<close>
proof -
  have a: "snd (dnsRecordExists fake_env fresh_world ''zone'' ''a.test'' ''tok'') = Inr False"
    by (simp add: dnsRecordExists_def cloudflareAPIRequest_def Let_def
        fake_env_def fake_roundtrip_def fake_unmarshal_DNSQuery_def fresh_world_def)
  have u: "url_error fake_env (''https://api.cloudflare.com/client/v4/zones/'' @ ''zone'' @ ''/dns_records'') = None"
    by (simp add: fake_env_def)
  have z: "zone (fst (dnsRecordExists fake_env fresh_world ''zone'' ''a.test'' ''tok'')) = 0"
    by (simp add: dnsRecordExists_def cloudflareAPIRequest_def Let_def
        fake_env_def fake_roundtrip_def fake_unmarshal_DNSQuery_def fresh_world_def)
  have r: "\<And>r. Method r = ''POST'' \<Longrightarrow> fst (roundtrip fake_env 0 r) = 1"
    and j: "\<And>r. json_Marshal_DNSRecord fake_env r =
       [CHR 0x7B, CHR 0x22] @ ''id'' @ [CHR 0x22] @ '':'' @ [CHR 0x22] @ ID r @ [CHR 0x22] @
       '','' @ [CHR 0x22] @ ''type'' @ [CHR 0x22] @ '':'' @ [CHR 0x22] @ Type r @ [CHR 0x22] @
       '','' @ [CHR 0x22] @ ''name'' @ [CHR 0x22] @ '':'' @ [CHR 0x22] @ Name r @ [CHR 0x22] @
       '','' @ [CHR 0x22] @ ''content'' @ [CHR 0x22] @ '':'' @ [CHR 0x22] @ Value r @ [CHR 0x22] @ ''}''"
    by (simp_all add: fake_env_def fake_roundtrip_def json_Marshal_DNSRecord_def)
  from create_request_is_cname [OF a u, of "''abc123''"] a u
  show ?thesis by (simp add: z r j)
qed

section \<open>The credential store\<close>

lemma owner_only: "((384 :: 32 word) AND NOT u) AND 63 = 0"
  by (simp add: word_bw_assocs word_bw_comms word_bw_lcs)

text \<open>
  Claim C9, as stated, fails for a path that holds a file: \<open>os.WriteFile\<close> applies its
  permission argument only to a file it creates. A credentials file of mode 0644 (420)
  is overwritten and still has mode 0644, not 0600 (384).
\<close>

theorem save_credentials_existing_file_counterexample:
  \<open>saveCredentials fake_env blank_identity_world ''./credentials.json''
      \<lparr>AccountTag = ''acct'', TunnelSecret = ''s3cr3t'', TunnelID = ''abc123''\<rparr> =
     (blank_identity_world\<lparr>files := (files blank_identity_world)
        (''./credentials.json'' :=
           File (''{\<newline>  "AccountTag": "acct",\<newline>  "TunnelSecret": "s3cr3t",\<newline>'' @
                 ''  "TunnelID": "abc123"\<newline>}'') 420)\<rparr>, None) \<and>
   (420 :: 32 word) \<noteq> 384\<close>
  by (simp add: saveCredentials_def os_WriteFile_def blank_identity_world_def
        json_MarshalIndent_TunnelCredentials_def fake_env_def)

text \<open>
  Claim C9, amended. \<open>saveCredentials\<close> serializes the identity as an indented JSON
  object with the fields in the fixed order \<open>AccountTag\<close>, \<open>TunnelSecret\<close>,
  \<open>TunnelID\<close> (the same identity always gives the same bytes) and hands it to
  \<open>os.WriteFile\<close> with the permission argument 0600. A file that did not exist is
  created with mode 0600 less the bits of the umask, so with no bit for group or others;
  a file that exists is overwritten and keeps the mode it had; where the path cannot be
  opened the error is returned and nothing is written.
\<close>

theorem save_credentials_effect:
  \<open>(files w filePath = Missing \<longrightarrow>
      saveCredentials E w filePath creds =
        (w\<lparr>files := (files w)(filePath :=
             File (''{\<newline>  "AccountTag": '' @ json_string E (AccountTag creds) @
                   '',\<newline>  "TunnelSecret": '' @ json_string E (TunnelSecret creds) @
                   '',\<newline>  "TunnelID": '' @ json_string E (TunnelID creds) @ ''\<newline>}'')
                  (384 AND NOT (umask w)))\<rparr>, None) \<and>
      (384 AND NOT (umask w)) AND 63 = 0) \<and>
   (\<forall>old m. files w filePath = File old m \<longrightarrow>
      saveCredentials E w filePath creds =
        (w\<lparr>files := (files w)(filePath :=
             File (''{\<newline>  "AccountTag": '' @ json_string E (AccountTag creds) @
                   '',\<newline>  "TunnelSecret": '' @ json_string E (TunnelSecret creds) @
                   '',\<newline>  "TunnelID": '' @ json_string E (TunnelID creds) @ ''\<newline>}'') m)\<rparr>,
         None)) \<and>
   (files w filePath = NoDir \<or> (\<exists>msg. files w filePath = Blocked msg) \<longrightarrow>
      fst (saveCredentials E w filePath creds) = w \<and>
      snd (saveCredentials E w filePath creds) \<noteq> None)\<close>
  using owner_only [of "umask w"]
  by (auto simp: saveCredentials_def os_WriteFile_def json_MarshalIndent_TunnelCredentials_def)

theorem save_credentials_effect_witness:
  \<open>files fresh_world ''./credentials.json'' = Missing \<and>
   saveCredentials fake_env fresh_world ''./credentials.json''
      \<lparr>AccountTag = ''acct'', TunnelSecret = ''s3cr3t'', TunnelID = ''abc123''\<rparr> =
     (fresh_world\<lparr>files := (files fresh_world)
        (''./credentials.json'' :=
           File (''{\<newline>  "AccountTag": "acct",\<newline>  "TunnelSecret": "s3cr3t",\<newline>'' @
                 ''  "TunnelID": "abc123"\<newline>}'') 384)\<rparr>, None) \<and>
   files blank_identity_world ''./credentials.json'' = File ''{}'' 420 \<and>
   saveCredentials fake_env blank_identity_world ''./credentials.json''
      \<lparr>AccountTag = ''acct'', TunnelSecret = ''s3cr3t'', TunnelID = ''abc123''\<rparr> =
     (blank_identity_world\<lparr>files := (files blank_identity_world)
        (''./credentials.json'' :=
           File (''{\<newline>  "AccountTag": "acct",\<newline>  "TunnelSecret": "s3cr3t",\<newline>'' @
                 ''  "TunnelID": "abc123"\<newline>}'') 420)\<rparr>, None) \<and>
   files (fresh_world\<lparr>files := (\<lambda>p. NoDir)\<rparr>) ''./credentials.json'' = NoDir \<and>
   fst (saveCredentials fake_env (fresh_world\<lparr>files := (\<lambda>p. NoDir)\<rparr>) ''./credentials.json''
      \<lparr>AccountTag = ''acct'', TunnelSecret = ''s3cr3t'', TunnelID = ''abc123''\<rparr>) =
     fresh_world\<lparr>files := (\<lambda>p. NoDir)\<rparr> \<and>
   snd (saveCredentials fake_env (fresh_world\<lparr>files := (\<lambda>p. NoDir)\<rparr>) ''./credentials.json''
      \<lparr>AccountTag = ''acct'', TunnelSecret = ''s3cr3t'', TunnelID = ''abc123''\<rparr>) \<noteq> None\<close>
proof -
  have f1: "files fresh_world ''./credentials.json'' = Missing"
    and u1: "umask fresh_world = 18"
    by (simp_all add: fresh_world_def)
  have f2: \<open>files blank_identity_world ''./credentials.json'' = File ''{}'' 420\<close>
    by (simp add: blank_identity_world_def)
  have f3: "files (fresh_world\<lparr>files := (\<lambda>p. NoDir)\<rparr>) ''./credentials.json'' = NoDir"
    by simp
  have j: "json_string fake_env = (\<lambda>s. [CHR 0x22] @ s @ [CHR 0x22])"
    by (simp add: fake_env_def)
  from save_credentials_effect [of fresh_world "''./credentials.json''" fake_env
      "\<lparr>AccountTag = ''acct'', TunnelSecret = ''s3cr3t'', TunnelID = ''abc123''\<rparr>"]
    save_credentials_effect [of blank_identity_world "''./credentials.json''" fake_env
      "\<lparr>AccountTag = ''acct'', TunnelSecret = ''s3cr3t'', TunnelID = ''abc123''\<rparr>"]
    save_credentials_effect [of "fresh_world\<lparr>files := (\<lambda>p. NoDir)\<rparr>" "''./credentials.json''" fake_env
      "\<lparr>AccountTag = ''acct'', TunnelSecret = ''s3cr3t'', TunnelID = ''abc123''\<rparr>"]
  show ?thesis
    unfolding f1 f2 f3 u1 j by simp
qed

text \<open>
  In \<open>main\<close> the path given to \<open>saveCredentials\<close> always holds a file already:
  \<open>createTunnel\<close> has just read it.
\<close>

lemma createTunnel_leaves_file:
  assumes "snd (createTunnel E w tunnelName credentialsPath) = Inr creds"
  shows "\<exists>d m. files (fst (createTunnel E w tunnelName credentialsPath)) credentialsPath = File d m"
  using assms
  by (auto simp: createTunnel_def loadCredentials_def os_ReadFile_def Let_def split_beta
      split: option.splits sum.splits node.splits)

section \<open>The orchestrator\<close>

lemma startTunnel_trace:
  "trace (fst (startTunnel E w configPath)) =
   trace w @ [Start [''cloudflared'', ''--config'', configPath, ''tunnel'', ''run'']]"
  by (simp add: startTunnel_def Let_def split: option.splits)

lemma startSocks5_trace:
  "trace (fst (startSocks5 E w port)) = trace w \<or>
   trace (fst (startSocks5 E w port)) = trace w @ [Socks5 port]"
  by (simp add: startSocks5_def split: option.splits)

lemma logoutCloudflare_trace:
  "trace (logoutCloudflare E w) = trace w @ [Exec [''cloudflared'', ''tunnel'', ''logout'']]"
  by (simp add: logoutCloudflare_def Let_def split_beta)















lemma loadCredentials_main_go_eq:
  "loadCredentials_main_go E w p = Inr creds \<longleftrightarrow> loadCredentials E w p = Inr creds"
  by (auto simp: loadCredentials_main_go_def loadCredentials_def split: sum.splits)





lemma fake_keys:
  "loadAPIKeys fake_env provisioned_world ''./api-keys.json'' = Inr \<lparr>ApiToken = ''tok'', ZoneID = ''zone''\<rparr>"
  "loadAPIKeys fake_env blank_identity_world ''./api-keys.json'' = Inr \<lparr>ApiToken = ''tok'', ZoneID = ''zone''\<rparr>"
  "loadAPIKeys fake_env tokenless_world ''./api-keys.json'' = Inl ''ApiToken or ZoneId missing in API keys file''"
  "loadAPIKeys_main_go fake_env tokenless_world ''./api-keys.json'' = Inr \<lparr>ApiToken = [], ZoneID = ''zone''\<rparr>"
  by (simp_all add: loadAPIKeys_def loadAPIKeys_main_go_def os_ReadFile_def provisioned_world_def
        blank_identity_world_def tokenless_world_def fake_env_def fake_unmarshal_APIKeys_def)

lemma fake_creds:
  "loadCredentials fake_env provisioned_world ''./credentials.json'' =
     Inr \<lparr>AccountTag = ''acct'', TunnelSecret = ''s3cr3t'', TunnelID = ''abc123''\<rparr>"
  "loadCredentials fake_env tokenless_world ''./credentials.json'' =
     Inr \<lparr>AccountTag = ''acct'', TunnelSecret = ''s3cr3t'', TunnelID = ''abc123''\<rparr>"
  "loadCredentials fake_env blank_identity_world ''./credentials.json'' =
     Inr \<lparr>AccountTag = [], TunnelSecret = [], TunnelID = []\<rparr>"
  by (simp_all add: loadCredentials_def os_ReadFile_def provisioned_world_def
        blank_identity_world_def tokenless_world_def fake_env_def fake_unmarshal_TunnelCredentials_def)

lemma fake_ensure:
  assumes "zone w = 0" and "trace w = []"
  shows "snd (ensureDNSRecord fake_env w zoneID domain tunnelID apiToken) = Inr ()"
    and "trace (fst (ensureDNSRecord fake_env w zoneID domain tunnelID apiToken)) =
         [Request (lookup_request zoneID domain apiToken),
          Request (create_request fake_env zoneID domain tunnelID apiToken)]"
    and "files (fst (ensureDNSRecord fake_env w zoneID domain tunnelID apiToken)) = files w"
  using assms
  by (simp_all add: ensureDNSRecord_def dnsRecordExists_def cloudflareAPIRequest_def Let_def
        fake_env_def fake_roundtrip_def fake_unmarshal_DNSQuery_def
        lookup_request_def create_request_def)

lemma fake_http_routes:
  "build_routes E w http_flags apiKeys creds =
     (w, Inr [\<lparr>Hostname = ''a.test'', Service = ''http://localhost:8080''\<rparr>])"
  by (simp add: build_routes_def http_flags_def fmt_d_examples)

lemma fake_write_and_start:
  assumes "creatable w (config_path (TunnelID creds))"
  shows "snd (write_and_start fake_env w http_flags creds (r # rs)) = Inr ()"
    and "trace (fst (write_and_start fake_env w http_flags creds (r # rs))) =
         trace w @ [Start [''cloudflared'', ''--config'', ''./'' @ TunnelID creds @ ''-config.yml'',
                           ''tunnel'', ''run'']]"
proof -
  let ?wc = "writeConfigFile w (TunnelID creds) (flag_credentials http_flags) (r # rs)"
  have p: "snd ?wc = Inr (config_path (TunnelID creds))"
    by (rule writeConfigFile_Cons(1) [OF assms])
  have m: "write_and_start fake_env w http_flags creds (r # rs) =
      startTunnel fake_env (fst ?wc) (config_path (TunnelID creds))"
    using p by (simp add: write_and_start_def split_beta http_flags_def)
  show "snd (write_and_start fake_env w http_flags creds (r # rs)) = Inr ()"
    unfolding m by (simp add: startTunnel_def fake_env_def Let_def)
  show "trace (fst (write_and_start fake_env w http_flags creds (r # rs))) =
         trace w @ [Start [''cloudflared'', ''--config'', ''./'' @ TunnelID creds @ ''-config.yml'',
                           ''tunnel'', ''run'']]"
    by (simp add: m startTunnel_trace writeConfigFile_trace config_path_def)
qed

lemma fake_run:
  assumes "loadAPIKeys fake_env w ''./api-keys.json'' = Inr keys"
    and "loadCredentials fake_env w ''./credentials.json'' = Inr creds"
    and "zone w = 0" and "trace w = []" and "creatable w (config_path (TunnelID creds))"
  shows "snd (main fake_env w http_flags) = Inr ()"
    and "trace (fst (main fake_env w http_flags)) =
         [Request (lookup_request (ZoneID keys) ''a.test'' (ApiToken keys)),
          Request (create_request fake_env (ZoneID keys) ''a.test'' (TunnelID creds) (ApiToken keys)),
          Start [''cloudflared'', ''--config'', ''./'' @ TunnelID creds @ ''-config.yml'',
                 ''tunnel'', ''run'']]"
proof -
  let ?w2 = "fst (ensureDNSRecord fake_env w (ZoneID keys) ''a.test'' (TunnelID creds) (ApiToken keys))"
  have l: "load_or_create fake_env w http_flags = (w, Inr (keys, creds))"
    using assms(1,2) by (simp add: load_or_create_def http_flags_def)
  have c: "creatable ?w2 (config_path (TunnelID creds))"
    using assms(5) by (simp add: creatable_def fake_ensure(3) [OF assms(3,4)])
  have m: "main fake_env w http_flags =
      write_and_start fake_env ?w2 http_flags creds
        [\<lparr>Hostname = ''a.test'', Service = ''http://localhost:8080''\<rparr>]"
    using fake_ensure(1) [OF assms(3,4), of "ZoneID keys" "''a.test''" "TunnelID creds" "ApiToken keys"]
    by (simp add: main_def l split_beta fake_http_routes) (simp add: http_flags_def)
  show "snd (main fake_env w http_flags) = Inr ()"
    by (simp add: m fake_write_and_start(1) [OF c])
  show "trace (fst (main fake_env w http_flags)) =
         [Request (lookup_request (ZoneID keys) ''a.test'' (ApiToken keys)),
          Request (create_request fake_env (ZoneID keys) ''a.test'' (TunnelID creds) (ApiToken keys)),
          Start [''cloudflared'', ''--config'', ''./'' @ TunnelID creds @ ''-config.yml'',
                 ''tunnel'', ''run'']]"
    by (simp add: m fake_write_and_start(2) [OF c] fake_ensure(2) [OF assms(3,4)])
qed

lemma fake_run_main_go:
  assumes "loadAPIKeys_main_go fake_env w ''./api-keys.json'' = Inr keys"
    and "loadCredentials fake_env w ''./credentials.json'' = Inr creds"
    and "zone w = 0" and "trace w = []" and "creatable w (config_path (TunnelID creds))"
  shows "snd (main_main_go fake_env w http_flags) = Inr ()"
    and "trace (fst (main_main_go fake_env w http_flags)) =
         [Request (lookup_request (ZoneID keys) ''a.test'' (ApiToken keys)),
          Request (create_request fake_env (ZoneID keys) ''a.test'' (TunnelID creds) (ApiToken keys)),
          Start [''cloudflared'', ''--config'', ''./'' @ TunnelID creds @ ''-config.yml'',
                 ''tunnel'', ''run'']]"
proof -
  let ?w2 = "fst (ensureDNSRecord fake_env w (ZoneID keys) ''a.test'' (TunnelID creds) (ApiToken keys))"
  let ?wc = "writeConfigFile ?w2 (TunnelID creds) ''./credentials.json''
               [\<lparr>Hostname = ''a.test'', Service = ''http://localhost:8080''\<rparr>]"
  have c: "creatable ?w2 (config_path (TunnelID creds))"
    using assms(5) by (simp add: creatable_def fake_ensure(3) [OF assms(3,4)])
  have p: "snd ?wc = Inr (config_path (TunnelID creds))"
    by (rule writeConfigFile_Cons(1) [OF c])
  have e: "snd (ensureDNSRecord_main_go fake_env w (ZoneID keys) ''a.test'' (TunnelID creds) (ApiToken keys)) = Inr ()"
    using fake_ensure(1) [OF assms(3,4), of "ZoneID keys" "''a.test''" "TunnelID creds" "ApiToken keys"]
    by (simp add: ensureDNSRecord_main_go_ok)
  have f: "flag_port http_flags = 8080" "flag_tunnel http_flags = ''my-tunnel''"
    "flag_domain http_flags = ''a.test''" "flag_apiKeys http_flags = ''./api-keys.json''"
    "flag_credentials http_flags = ''./credentials.json''"
    by (simp_all add: http_flags_def)
  have m: "main_main_go fake_env w http_flags = startTunnel fake_env (fst ?wc) (config_path (TunnelID creds))"
    using assms(1) assms(2) [folded loadCredentials_main_go_eq] e p
    by (simp add: main_main_go_def f split_beta writeConfigFile_main_go_eq
          ensureDNSRecord_main_go_world fmt_d_examples)
  show "snd (main_main_go fake_env w http_flags) = Inr ()"
    unfolding m by (simp add: startTunnel_def fake_env_def Let_def)
  show "trace (fst (main_main_go fake_env w http_flags)) =
         [Request (lookup_request (ZoneID keys) ''a.test'' (ApiToken keys)),
          Request (create_request fake_env (ZoneID keys) ''a.test'' (TunnelID creds) (ApiToken keys)),
          Start [''cloudflared'', ''--config'', ''./'' @ TunnelID creds @ ''-config.yml'',
                 ''tunnel'', ''run'']]"
    by (simp add: m startTunnel_trace writeConfigFile_trace config_path_def
          fake_ensure(2) [OF assms(3,4)])
qed

lemma fixture_worlds:
  "zone provisioned_world = 0" "trace provisioned_world = []" "creatable provisioned_world (config_path t)"
  "zone blank_identity_world = 0" "trace blank_identity_world = []"
  "creatable blank_identity_world (config_path t)"
  "zone tokenless_world = 0" "trace tokenless_world = []" "creatable tokenless_world (config_path t)"
  by (simp_all add: provisioned_world_def blank_identity_world_def tokenless_world_def
        creatable_def config_path_def)







section \<open>The API key store\<close>

lemma loadAPIKeys_checked:
  "loadAPIKeys E w p = Inr keys \<longleftrightarrow>
     (\<exists>d m. files w p = File d m \<and> unmarshal_APIKeys E d = Inr keys) \<and>
     ApiToken keys \<noteq> [] \<and> ZoneID keys \<noteq> []"
  by (auto simp: loadAPIKeys_def os_ReadFile_def split: sum.splits node.splits if_splits)

lemma loadAPIKeys_main_go_unchecked:
  "loadAPIKeys_main_go E w p = Inr keys \<longleftrightarrow>
     (\<exists>d m. files w p = File d m \<and> unmarshal_APIKeys E d = Inr keys)"
  by (auto simp: loadAPIKeys_main_go_def os_ReadFile_def split: sum.splits node.splits)

lemma main_fails_on_bad_keys:
  assumes "loadAPIKeys E w (flag_apiKeys fl) = Inl err"
    and "flag_port fl \<noteq> 0" "flag_tunnel fl \<noteq> []" "flag_domain fl \<noteq> []"
  shows "main E w fl = (w, Inl (Fatal (''Failed to load API keys: '' @ err)))"
  using assms by (simp add: main_def load_or_create_def)

text \<open>
  Claim C4 holds of \<open>loadAPIKeys\<close> in part_001 (the three lemmas above: a key file
  that cannot be read or decoded, or that leaves \<open>ApiToken\<close> or \<open>ZoneId\<close> empty, is an
  error, and \<open>main\<close> then ends with the world untouched). The \<open>loadAPIKeys\<close> of the
  root main.go has no such check: on a key file without \<open>ApiToken\<close> it returns the
  keys with an empty token, and its \<open>main\<close> goes on to send the lookup and the create
  call with the header \<open>Authorization: Bearer\<close> and no token.
\<close>

theorem api_keys_unchecked_in_main_go:
  "loadAPIKeys_main_go fake_env tokenless_world ''./api-keys.json'' =
     Inr \<lparr>ApiToken = [], ZoneID = ''zone''\<rparr> \<and>
   snd (main_main_go fake_env tokenless_world http_flags) = Inr () \<and>
   trace (fst (main_main_go fake_env tokenless_world http_flags)) =
     [Request (lookup_request ''zone'' ''a.test'' []),
      Request (create_request fake_env ''zone'' ''a.test'' ''abc123'' []),
      Start [''cloudflared'', ''--config'', ''./abc123-config.yml'', ''tunnel'', ''run'']] \<and>
   Authorization (lookup_request ''zone'' ''a.test'' []) = ''Bearer '' \<and>
   loadAPIKeys fake_env tokenless_world ''./api-keys.json'' =
     Inl ''ApiToken or ZoneId missing in API keys file'' \<and>
   main fake_env tokenless_world http_flags =
     (tokenless_world,
      Inl (Fatal ''Failed to load API keys: ApiToken or ZoneId missing in API keys file''))"
proof -
  have f: "flag_apiKeys http_flags = ''./api-keys.json''" "flag_port http_flags \<noteq> 0"
    "flag_tunnel http_flags \<noteq> []" "flag_domain http_flags \<noteq> []"
    by (simp_all add: http_flags_def)
  from fake_keys(3) have b: "loadAPIKeys fake_env tokenless_world (flag_apiKeys http_flags) =
      Inl ''ApiToken or ZoneId missing in API keys file''"
    by (simp add: f)
  from fake_run_main_go [OF fake_keys(4) fake_creds(2) fixture_worlds(7,8,9)]
    main_fails_on_bad_keys [OF b f(2,3,4)] fake_keys(3,4)
  show ?thesis
    by (simp add: lookup_request_def)
qed

section \<open>The precondition of the config writer\<close>

lemma startTunnel_no_panic: "snd (startTunnel E w p) \<noteq> Inl (Panic msg)"
  by (simp add: startTunnel_def Let_def split: option.splits)

lemma startSocks5_no_panic: "snd (startSocks5 E w port) \<noteq> Inl (Panic msg)"
  by (simp add: startSocks5_def split: option.splits)

lemma ensureDNSRecord_no_panic:
  "snd (ensureDNSRecord E w zoneID domain tunnelID apiToken) \<noteq> Inl (Panic msg)"
  by (auto simp: ensureDNSRecord_result dnsRecordExists_result split: sum.splits)

lemma build_routes_no_panic: "snd (build_routes E w fl apiKeys creds) \<noteq> Inl (Panic msg)"
  using ensureDNSRecord_no_panic [of E w "ZoneID apiKeys" "flag_proxy_domain fl" "TunnelID creds"
      "ApiToken apiKeys" msg]
  by (auto simp: build_routes_def split_beta split: sum.splits)

lemma build_routes_nonempty: "snd (build_routes E w fl apiKeys creds) = Inr routes \<Longrightarrow> routes \<noteq> []"
  by (auto simp: build_routes_def split_beta split: if_splits sum.splits)

lemma load_or_create_no_panic: "snd (load_or_create E w fl) \<noteq> Inl (Panic msg)"
  by (auto simp: load_or_create_def authenticateCloudflare_def createTunnel_def Let_def split_beta
      split: sum.splits option.splits)

lemma reuse_previous_no_panic: "snd (reuse_previous E w fl) \<noteq> Inl (Panic msg)"
  by (auto simp: reuse_previous_def Let_def startTunnel_no_panic split: sum.splits)

lemma write_and_start_no_panic:
  "routes \<noteq> [] \<Longrightarrow> snd (write_and_start E w fl creds routes) \<noteq> Inl (Panic msg)"
  using writeConfigFile_no_panic [of w "TunnelID creds" "flag_credentials fl" "hd routes" "tl routes"]
  by (cases routes)
     (auto simp: write_and_start_def split_beta startTunnel_no_panic startSocks5_no_panic
      split: sum.splits failure.splits)

lemma main_no_panic: "snd (main E w fl) \<noteq> Inl (Panic msg)"
  by (auto simp: main_def split_beta reuse_previous_no_panic load_or_create_no_panic
        ensureDNSRecord_no_panic build_routes_no_panic
      split: sum.splits dest!: build_routes_nonempty write_and_start_no_panic)

text \<open>
  Claim C10. \<open>writeConfigFile\<close> reads \<open>routes[0]\<close> with no check of the length: on
  the empty list, once the file is created, it panics with an index out of range, and
  on a non-empty list it never panics. Its one call site satisfies the precondition:
  whatever the protocol flag, the routes that \<open>main\<close> builds are non-empty, and no run
  of \<open>main\<close> ends in a panic.
\<close>

theorem routes_precondition:
  "(creatable w (config_path tunnelID) \<longrightarrow>
      snd (writeConfigFile w tunnelID credentialsPath []) =
        Inl (Panic ''runtime error: index out of range [0] with length 0'')) \<and>
   (\<forall>msg. snd (writeConfigFile w tunnelID credentialsPath (r0 # rest)) \<noteq> Inl (Panic msg)) \<and>
   (\<forall>routes. snd (build_routes E w' fl apiKeys creds) = Inr routes \<longrightarrow> routes \<noteq> []) \<and>
   (\<forall>msg. snd (main E w' fl) \<noteq> Inl (Panic msg))"
  by (simp add: writeConfigFile_Nil(1) writeConfigFile_no_panic build_routes_nonempty main_no_panic)

theorem routes_precondition_witness:
  "creatable fresh_world (config_path ''abc123'') \<and>
   snd (writeConfigFile fresh_world ''abc123'' ''./credentials.json'' []) =
     Inl (Panic ''runtime error: index out of range [0] with length 0'') \<and>
   snd (build_routes fake_env provisioned_world http_flags
          \<lparr>ApiToken = ''tok'', ZoneID = ''zone''\<rparr>
          \<lparr>AccountTag = ''acct'', TunnelSecret = ''s3cr3t'', TunnelID = ''abc123''\<rparr>) =
     Inr [\<lparr>Hostname = ''a.test'', Service = ''http://localhost:8080''\<rparr>] \<and>
   [\<lparr>Hostname = ''a.test'', Service = ''http://localhost:8080''\<rparr>] \<noteq> [] \<and>
   snd (main fake_env provisioned_world http_flags) = Inr ()"
  using routes_precondition [of fresh_world "''abc123''" "''./credentials.json''" _ _
      fake_env provisioned_world http_flags "\<lparr>ApiToken = ''tok'', ZoneID = ''zone''\<rparr>"
      "\<lparr>AccountTag = ''acct'', TunnelSecret = ''s3cr3t'', TunnelID = ''abc123''\<rparr>"]
    fake_run(1) [OF fake_keys(1) fake_creds(1) fixture_worlds(1,2,3)]
  by (simp add: creatable_fresh fake_http_routes)


section \<open>Create calls of a run\<close>

lemma create_calls_other:
  "create_calls [Start argv] = 0" "create_calls [Exec argv] = 0" "create_calls [Socks5 port] = 0"
  "create_calls [Exec argv, Exec argv'] = 0"
  by (simp_all add: create_calls_def)

lemma startTunnel_creates:
  "create_calls (trace (fst (startTunnel E w p))) = create_calls (trace w)"
  by (simp add: startTunnel_trace create_calls_append create_calls_other)

lemma startSocks5_creates:
  "create_calls (trace (fst (startSocks5 E w port))) = create_calls (trace w)"
  using startSocks5_trace [of E w port]
  by (auto simp: create_calls_append create_calls_other)

lemma logoutCloudflare_creates:
  "create_calls (trace (logoutCloudflare E w)) = create_calls (trace w)"
  by (simp add: logoutCloudflare_trace create_calls_append create_calls_other del: append.simps)

lemma authenticateCloudflare_trace:
  "trace (fst (authenticateCloudflare E w)) = trace w @ [Exec [''cloudflared'', ''tunnel'', ''login'']]"
  by (simp add: authenticateCloudflare_def Let_def split_beta split: option.splits)

lemma createTunnel_trace:
  "trace (fst (createTunnel E w tunnelName credentialsPath)) =
   trace w @ [Exec [''cloudflared'', ''tunnel'', ''--credentials-file'', credentialsPath,
                    ''create'', tunnelName]]"
  by (simp add: createTunnel_def Let_def split_beta split: option.splits sum.splits)

lemma saveCredentials_trace: "trace (fst (saveCredentials E w p c)) = trace w"
  by (simp add: saveCredentials_def os_WriteFile_def split: node.splits)

lemma load_or_create_creates:
  "create_calls (trace (fst (load_or_create E w fl))) = create_calls (trace w)"
  by (simp add: load_or_create_def split_beta authenticateCloudflare_trace createTunnel_trace
        saveCredentials_trace create_calls_append create_calls_other
      split: sum.splits option.splits)

lemma reuse_previous_creates:
  "create_calls (trace (fst (reuse_previous E w fl))) = create_calls (trace w)"
  by (simp add: reuse_previous_def Let_def startTunnel_creates split: sum.splits)

lemma build_routes_creates:
  "create_calls (trace (fst (build_routes E w fl apiKeys creds))) \<le> create_calls (trace w) + 1"
  "flag_protocol fl \<noteq> ''all'' \<Longrightarrow> fst (build_routes E w fl apiKeys creds) = w"
  using ensureDNSRecord_create_calls [of E w "ZoneID apiKeys" "flag_proxy_domain fl" "TunnelID creds"
      "ApiToken apiKeys"]
  by (auto simp: build_routes_def split_beta split: sum.splits)

lemma write_and_start_creates:
  "create_calls (trace (fst (write_and_start E w fl creds routes))) = create_calls (trace w)"
  by (simp add: write_and_start_def split_beta startTunnel_creates startSocks5_creates
        logoutCloudflare_creates writeConfigFile_trace
      split: sum.splits failure.splits)

lemma main_creates:
  "create_calls (trace (fst (main E w fl))) \<le> create_calls (trace w) + 2"
  "flag_protocol fl \<noteq> ''all'' \<Longrightarrow> create_calls (trace (fst (main E w fl))) \<le> create_calls (trace w) + 1"
proof -
  have e: "\<And>w' z d t k. create_calls (trace (fst (ensureDNSRecord E w' z d t k))) \<le> create_calls (trace w') + 1"
    by (rule ensureDNSRecord_create_calls)
  have l: "create_calls (trace (fst (load_or_create E w fl))) = create_calls (trace w)"
    by (rule load_or_create_creates)
  have b: "\<And>w' k c. create_calls (trace (fst (build_routes E w' fl k c))) \<le> create_calls (trace w') + 1"
    by (rule build_routes_creates(1))
  show "create_calls (trace (fst (main E w fl))) \<le> create_calls (trace w) + 2"
  proof (cases "flag_port fl = 0 \<or> flag_tunnel fl = [] \<or> flag_domain fl = []")
    case True
    then show ?thesis by (simp add: main_def reuse_previous_creates)
  next
    case False
    show ?thesis
    proof (cases "snd (load_or_create E w fl)")
      case (Inl f)
      with False l show ?thesis by (simp add: main_def split_beta)
    next
      case (Inr kc)
      let ?w1 = "fst (load_or_create E w fl)"
      let ?w2 = "fst (ensureDNSRecord E ?w1 (ZoneID (fst kc)) (flag_domain fl) (TunnelID (snd kc)) (ApiToken (fst kc)))"
      let ?w3 = "fst (build_routes E ?w2 fl (fst kc) (snd kc))"
      have t: "create_calls (trace (fst (main E w fl))) \<in>
          {create_calls (trace ?w2), create_calls (trace ?w3)}"
        using False Inr
        by (simp add: main_def split_beta write_and_start_creates split: sum.splits)
      from e [of ?w1 "ZoneID (fst kc)" "flag_domain fl" "TunnelID (snd kc)" "ApiToken (fst kc)"]
        b [of ?w2 "fst kc" "snd kc"] l t
      show ?thesis by auto
    qed
  qed
  show "create_calls (trace (fst (main E w fl))) \<le> create_calls (trace w) + 1"
    if p: "flag_protocol fl \<noteq> ''all''"
  proof (cases "flag_port fl = 0 \<or> flag_tunnel fl = [] \<or> flag_domain fl = []")
    case True
    then show ?thesis by (simp add: main_def reuse_previous_creates)
  next
    case False
    show ?thesis
    proof (cases "snd (load_or_create E w fl)")
      case (Inl f)
      with False l show ?thesis by (simp add: main_def split_beta)
    next
      case (Inr kc)
      let ?w1 = "fst (load_or_create E w fl)"
      let ?w2 = "fst (ensureDNSRecord E ?w1 (ZoneID (fst kc)) (flag_domain fl) (TunnelID (snd kc)) (ApiToken (fst kc)))"
      have t: "create_calls (trace (fst (main E w fl))) = create_calls (trace ?w2)"
        using False Inr
        by (simp add: main_def split_beta write_and_start_creates build_routes_creates(2) [OF p]
            split: sum.splits)
      from e [of ?w1 "ZoneID (fst kc)" "flag_domain fl" "TunnelID (snd kc)" "ApiToken (fst kc)"] l t
      show ?thesis by auto
    qed
  qed
qed

lemma named_keys:
  "loadAPIKeys named_env named_world ''./api-keys.json'' = Inr \<lparr>ApiToken = ''tok'', ZoneID = ''zone''\<rparr>"
  by (simp add: loadAPIKeys_def os_ReadFile_def named_world_def provisioned_world_def named_env_def
        fake_unmarshal_APIKeys_def)

lemma named_creds:
  "loadCredentials named_env named_world ''./credentials.json'' =
     Inr \<lparr>AccountTag = ''acct'', TunnelSecret = ''s3cr3t'', TunnelID = ''abc123''\<rparr>"
  by (simp add: loadCredentials_def os_ReadFile_def named_world_def provisioned_world_def named_env_def
        fake_unmarshal_TunnelCredentials_def)

lemma named_host:
  "after_marker ''?name='' (URL (lookup_request ''zone'' host apiToken)) = host"
  by (simp add: lookup_request_def)

lemma named_ensure_absent:
  assumes "\<not> list_ex (has_infix ([CHR 0x22] @ ''name'' @ [CHR 0x22] @ '':'' @ [CHR 0x22] @ host @ [CHR 0x22])) (zone w)"
  shows "ensureDNSRecord named_env w ''zone'' host tunnelID apiToken =
     (w\<lparr>zone := zone w @ [Body (create_request named_env ''zone'' host tunnelID apiToken)],
        trace := trace w @ [Request (lookup_request ''zone'' host apiToken),
                            Request (create_request named_env ''zone'' host tunnelID apiToken)]\<rparr>,
      Inr ())"
proof -
  have l: "dnsRecordExists named_env w ''zone'' host apiToken =
      (w\<lparr>trace := trace w @ [Request (lookup_request ''zone'' host apiToken)]\<rparr>, Inr False)"
    using assms named_host [of host apiToken]
    by (simp add: dnsRecordExists_def cloudflareAPIRequest_def Let_def named_env_def
          named_roundtrip_def fake_unmarshal_DNSQuery_def lookup_request_def)
  show ?thesis
    by (simp add: ensureDNSRecord_def l cloudflareAPIRequest_def Let_def create_request_def)
       (simp add: named_env_def named_roundtrip_def)
qed

text \<open>
  Claim C2, as stated, fails for a run: with \<open>protocol=all\<close>, \<open>main\<close> calls
  \<open>ensureDNSRecord\<close> for the domain and for the proxy domain, and against an API that
  holds neither name the run makes two create calls.
\<close>

theorem two_creates_in_one_run_counterexample:
  "snd (main named_env named_world all_flags) = Inr () \<and>
   trace (fst (main named_env named_world all_flags)) =
     [Request (lookup_request ''zone'' ''a.test'' ''tok''),
      Request (create_request named_env ''zone'' ''a.test'' ''abc123'' ''tok''),
      Request (lookup_request ''zone'' ''p.test'' ''tok''),
      Request (create_request named_env ''zone'' ''p.test'' ''abc123'' ''tok''),
      Socks5 1080,
      Start [''cloudflared'', ''--config'', ''./abc123-config.yml'', ''tunnel'', ''run'']] \<and>
   create_calls (trace (fst (main named_env named_world all_flags))) = 2"
proof -
  let ?k = "\<lparr>ApiToken = ''tok'', ZoneID = ''zone''\<rparr>"
  let ?c = "\<lparr>AccountTag = ''acct'', TunnelSecret = ''s3cr3t'', TunnelID = ''abc123''\<rparr>"
  let ?b1 = "Body (create_request named_env ''zone'' ''a.test'' ''abc123'' ''tok'')"
  let ?b2 = "Body (create_request named_env ''zone'' ''p.test'' ''abc123'' ''tok'')"
  let ?t2 = "[Request (lookup_request ''zone'' ''a.test'' ''tok''),
              Request (create_request named_env ''zone'' ''a.test'' ''abc123'' ''tok'')]"
  let ?t3 = "[Request (lookup_request ''zone'' ''a.test'' ''tok''),
              Request (create_request named_env ''zone'' ''a.test'' ''abc123'' ''tok''),
              Request (lookup_request ''zone'' ''p.test'' ''tok''),
              Request (create_request named_env ''zone'' ''p.test'' ''abc123'' ''tok'')]"
  let ?w2 = "named_world\<lparr>zone := [?b1], trace := ?t2\<rparr>"
  let ?w3 = "named_world\<lparr>zone := [?b1, ?b2], trace := ?t3\<rparr>"
  have f: "flag_port all_flags = 22" "flag_tunnel all_flags = ''my-tunnel''"
    "flag_domain all_flags = ''a.test''" "flag_apiKeys all_flags = ''./api-keys.json''"
    "flag_credentials all_flags = ''./credentials.json''" "flag_protocol all_flags = ''all''"
    "flag_socks5_port all_flags = 1080" "flag_proxy_domain all_flags = ''p.test''"
    by (simp_all add: all_flags_def)
  have l: "load_or_create named_env named_world all_flags = (named_world, Inr (?k, ?c))"
    by (simp add: load_or_create_def f named_keys named_creds)
  have z0: "zone named_world = []" "trace named_world = []"
    by (simp_all add: named_world_def)
  have e1: "ensureDNSRecord named_env named_world ''zone'' ''a.test'' ''abc123'' ''tok'' = (?w2, Inr ())"
    using named_ensure_absent [of "''a.test''" named_world "''abc123''" "''tok''"]
    by (simp add: z0)
  have a2: "\<not> list_ex (has_infix ([CHR 0x22] @ ''name'' @ [CHR 0x22] @ '':'' @ [CHR 0x22] @ ''p.test'' @ [CHR 0x22]))
              (zone ?w2)"
    by (simp add: create_request_def json_Marshal_DNSRecord_def named_env_def)
  have e2: "ensureDNSRecord named_env ?w2 ''zone'' ''p.test'' ''abc123'' ''tok'' = (?w3, Inr ())"
    using named_ensure_absent [OF a2, of "''abc123''" "''tok''"]
    by simp
  have b: "build_routes named_env ?w2 all_flags ?k ?c =
      (?w3, Inr [\<lparr>Hostname = ''a.test'', Service = ''tcp://localhost:22''\<rparr>,
                 \<lparr>Hostname = ''p.test'', Service = ''tcp://localhost:1080''\<rparr>])"
    by (simp add: build_routes_def f e2 fmt_d_examples)
  have c: "creatable ?w3 (config_path ''abc123'')"
    by (simp add: creatable_def named_world_def provisioned_world_def config_path_def)
  let ?wc = "writeConfigFile ?w3 ''abc123'' ''./credentials.json''
      [\<lparr>Hostname = ''a.test'', Service = ''tcp://localhost:22''\<rparr>,
       \<lparr>Hostname = ''p.test'', Service = ''tcp://localhost:1080''\<rparr>]"
  have p: "snd ?wc = Inr (config_path ''abc123'')"
    by (rule writeConfigFile_Cons(1) [OF c])
  have tc: "trace (fst ?wc) = ?t3"
    by (simp add: writeConfigFile_trace)
  have s: "\<And>w. startSocks5 named_env w 1080 = (w\<lparr>trace := trace w @ [Socks5 1080]\<rparr>, Inr ())"
    by (simp add: startSocks5_def named_env_def)
  have ws: "write_and_start named_env ?w3 all_flags ?c
      [\<lparr>Hostname = ''a.test'', Service = ''tcp://localhost:22''\<rparr>,
       \<lparr>Hostname = ''p.test'', Service = ''tcp://localhost:1080''\<rparr>] =
      startTunnel named_env ((fst ?wc)\<lparr>trace := trace (fst ?wc) @ [Socks5 1080]\<rparr>) (config_path ''abc123'')"
    using p by (simp add: write_and_start_def f split_beta s)
  have m: "main named_env named_world all_flags =
      startTunnel named_env ((fst ?wc)\<lparr>trace := trace (fst ?wc) @ [Socks5 1080]\<rparr>) (config_path ''abc123'')"
    by (simp add: main_def f l e1 b ws)
  have r: "snd (main named_env named_world all_flags) = Inr ()"
    unfolding m by (simp add: startTunnel_def named_env_def Let_def)
  have t: "trace (fst (main named_env named_world all_flags)) =
     [Request (lookup_request ''zone'' ''a.test'' ''tok''),
      Request (create_request named_env ''zone'' ''a.test'' ''abc123'' ''tok''),
      Request (lookup_request ''zone'' ''p.test'' ''tok''),
      Request (create_request named_env ''zone'' ''p.test'' ''abc123'' ''tok''),
      Socks5 1080,
      Start [''cloudflared'', ''--config'', ''./abc123-config.yml'', ''tunnel'', ''run'']]"
    unfolding m by (simp add: startTunnel_trace tc config_path_def)
  have "create_calls (trace (fst (main named_env named_world all_flags))) = 2"
    unfolding t by (simp add: create_calls_def lookup_request_def create_request_def)
  with r t show ?thesis by simp
qed

lemma createTunnel_main_go_trace:
  "trace (fst (createTunnel_main_go E w tunnelName credentialsPath)) =
   trace w @ [Exec [''cloudflared'', ''tunnel'', ''--credentials-file'', credentialsPath,
                    ''create'', tunnelName]]"
  by (simp add: createTunnel_main_go_def Let_def split_beta split: option.splits sum.splits)

lemma main_main_go_creates:
  "create_calls (trace (fst (main_main_go E w fl))) \<le> create_calls (trace w) + 1"
proof (cases "flag_port fl = 0 \<or> flag_tunnel fl = [] \<or> flag_domain fl = []")
  case True
  then show ?thesis
    by (simp add: main_main_go_def Let_def startTunnel_creates split: sum.splits)
next
  case False
  show ?thesis
  proof (cases "loadAPIKeys_main_go E w (flag_apiKeys fl)")
    case (Inl err)
    with False show ?thesis by (simp add: main_main_go_def)
  next
    case (Inr k)
    define P where "P =
      (case loadCredentials_main_go E w (flag_credentials fl) of
         Inr creds \<Rightarrow> (w, Inr creds)
       | Inl err \<Rightarrow>
          (case authenticateCloudflare E w of
             (w1, Inl f) \<Rightarrow> (w1, Inl f)
           | (w1, Inr u) \<Rightarrow>
              (case createTunnel_main_go E w1 (flag_tunnel fl) (flag_credentials fl) of
                 (w2, Inl f) \<Rightarrow> (w2, Inl f)
               | (w2, Inr creds) \<Rightarrow>
                  (case saveCredentials E w2 (flag_credentials fl) creds of
                     (w3, Some err2) \<Rightarrow>
                       (w3, Inl (Fatal (''Failed to save tunnel credentials: '' @ err2)))
                   | (w3, None) \<Rightarrow> (w3, Inr creds)))))"
    have p: "create_calls (trace (fst P)) = create_calls (trace w)"
      by (simp add: P_def split_beta authenticateCloudflare_trace createTunnel_main_go_trace
            saveCredentials_trace create_calls_append create_calls_other
          split: sum.splits option.splits)
    have m: "main_main_go E w fl =
      (case P of
         (w4, Inl f) \<Rightarrow> (w4, Inl f)
       | (w4, Inr creds) \<Rightarrow>
          (case ensureDNSRecord_main_go E w4 (ZoneID k) (flag_domain fl) (TunnelID creds) (ApiToken k) of
             (w5, Inl f) \<Rightarrow> (w5, Inl f)
           | (w5, Inr u) \<Rightarrow>
              (case writeConfigFile_main_go w5 (flag_tunnel fl) (TunnelID creds) (flag_port fl)
                      (flag_domain fl) (flag_credentials fl) of
                 (w6, Inl f) \<Rightarrow> (w6, Inl f)
               | (w6, Inr configPath) \<Rightarrow> startTunnel E w6 configPath)))"
      using False Inr by (simp add: main_main_go_def P_def)
    show ?thesis
    proof (cases "snd P")
      case (Inl f)
      then show ?thesis by (simp add: m split_beta p)
    next
      case c: (Inr creds)
      have "create_calls (trace (fst (main_main_go E w fl))) =
          create_calls (trace (fst (ensureDNSRecord_main_go E (fst P) (ZoneID k) (flag_domain fl)
             (TunnelID creds) (ApiToken k))))"
        by (simp add: m split_beta c startTunnel_creates writeConfigFile_main_go_eq
              writeConfigFile_trace split: sum.splits)
      with ensureDNSRecord_create_calls [of E "fst P" "ZoneID k" "flag_domain fl" "TunnelID creds" "ApiToken k"] p
      show ?thesis by (simp add: ensureDNSRecord_main_go_world)
    qed
  qed
qed

text \<open>
  Claim C2, amended. \<open>ensureDNSRecord\<close> makes at most one create call per call, that
  is per hostname: it first makes the lookup and, whatever the API answers, issues no
  request but the lookup and, after it, at most one create call. When the lookup finds
  the record the call returns with the lookup as its only request. So a second call in
  a state where the record is present after the first is a lookup and nothing else, and
  both calls together make at most one create call. A run of \<open>main\<close> makes at most one
  create call unless the protocol is \<open>all\<close>, where it makes at most two, one for the
  domain and one for the proxy domain. The function of the root main.go leaves the same
  trace and the same zone, and a run of its \<open>main\<close> makes at most one create call.
\<close>

theorem ensure_record_idempotent:
  "trace (fst (ensureDNSRecord E w zoneID domain tunnelID apiToken)) \<in>
     {trace w,
      trace w @ [Request (lookup_request zoneID domain apiToken)],
      trace w @ [Request (lookup_request zoneID domain apiToken),
                 Request (create_request E zoneID domain tunnelID apiToken)]} \<and>
   (snd (dnsRecordExists E w zoneID domain apiToken) = Inr True \<longrightarrow>
      ensureDNSRecord E w zoneID domain tunnelID apiToken =
        (fst (dnsRecordExists E w zoneID domain apiToken), Inr ()) \<and>
      trace (fst (ensureDNSRecord E w zoneID domain tunnelID apiToken)) =
        trace w @ [Request (lookup_request zoneID domain apiToken)]) \<and>
   (snd (dnsRecordExists E (fst (ensureDNSRecord E w zoneID domain tunnelID apiToken))
           zoneID domain apiToken) = Inr True \<longrightarrow>
      snd (ensureDNSRecord E (fst (ensureDNSRecord E w zoneID domain tunnelID apiToken))
             zoneID domain tunnelID apiToken) = Inr () \<and>
      trace (fst (ensureDNSRecord E (fst (ensureDNSRecord E w zoneID domain tunnelID apiToken))
                    zoneID domain tunnelID apiToken)) =
        trace (fst (ensureDNSRecord E w zoneID domain tunnelID apiToken)) @
        [Request (lookup_request zoneID domain apiToken)] \<and>
      create_calls (trace (fst (ensureDNSRecord E (fst (ensureDNSRecord E w zoneID domain tunnelID apiToken))
                    zoneID domain tunnelID apiToken))) \<le> create_calls (trace w) + 1) \<and>
   fst (ensureDNSRecord_main_go E w zoneID domain tunnelID apiToken) =
     fst (ensureDNSRecord E w zoneID domain tunnelID apiToken) \<and>
   create_calls (trace (fst (main E w fl))) \<le> create_calls (trace w) + 2 \<and>
   (flag_protocol fl \<noteq> ''all'' \<longrightarrow>
      create_calls (trace (fst (main E w fl))) \<le> create_calls (trace w) + 1) \<and>
   create_calls (trace (fst (main_main_go E w fl))) \<le> create_calls (trace w) + 1"
proof (intro conjI impI)
  show "trace (fst (ensureDNSRecord E w zoneID domain tunnelID apiToken)) \<in>
     {trace w,
      trace w @ [Request (lookup_request zoneID domain apiToken)],
      trace w @ [Request (lookup_request zoneID domain apiToken),
                 Request (create_request E zoneID domain tunnelID apiToken)]}"
    by (rule ensureDNSRecord_trace)
next
  assume p: "snd (dnsRecordExists E w zoneID domain apiToken) = Inr True"
  show e: "ensureDNSRecord E w zoneID domain tunnelID apiToken =
        (fst (dnsRecordExists E w zoneID domain apiToken), Inr ())"
    by (rule ensureDNSRecord_present [OF p])
  show "trace (fst (ensureDNSRecord E w zoneID domain tunnelID apiToken)) =
        trace w @ [Request (lookup_request zoneID domain apiToken)]"
    using dnsRecordExists_Inr_url [OF p] by (simp add: e dnsRecordExists_trace)
next
  let ?w1 = "fst (ensureDNSRecord E w zoneID domain tunnelID apiToken)"
  assume p: "snd (dnsRecordExists E ?w1 zoneID domain apiToken) = Inr True"
  have e: "ensureDNSRecord E ?w1 zoneID domain tunnelID apiToken =
        (fst (dnsRecordExists E ?w1 zoneID domain apiToken), Inr ())"
    by (rule ensureDNSRecord_present [OF p])
  then show "snd (ensureDNSRecord E ?w1 zoneID domain tunnelID apiToken) = Inr ()"
    by simp
  show t: "trace (fst (ensureDNSRecord E ?w1 zoneID domain tunnelID apiToken)) =
        trace ?w1 @ [Request (lookup_request zoneID domain apiToken)]"
    using dnsRecordExists_Inr_url [OF p] by (simp add: e dnsRecordExists_trace)
  show "create_calls (trace (fst (ensureDNSRecord E ?w1 zoneID domain tunnelID apiToken))) \<le>
        create_calls (trace w) + 1"
    using ensureDNSRecord_create_calls [of E w zoneID domain tunnelID apiToken]
    by (simp add: t create_calls_append create_calls_lookup del: append.simps)
next
  show "fst (ensureDNSRecord_main_go E w zoneID domain tunnelID apiToken) =
     fst (ensureDNSRecord E w zoneID domain tunnelID apiToken)"
    by (rule ensureDNSRecord_main_go_world)
next
  show "create_calls (trace (fst (main E w fl))) \<le> create_calls (trace w) + 2"
    by (rule main_creates(1))
next
  assume "flag_protocol fl \<noteq> ''all''"
  then show "create_calls (trace (fst (main E w fl))) \<le> create_calls (trace w) + 1"
    by (rule main_creates(2))
next
  show "create_calls (trace (fst (main_main_go E w fl))) \<le> create_calls (trace w) + 1"
    by (rule main_main_go_creates)
qed

theorem ensure_record_idempotent_witness:
  "snd (dnsRecordExists fake_env
          (fst (ensureDNSRecord fake_env fresh_world ''zone'' ''a.test'' ''abc123'' ''tok''))
          ''zone'' ''a.test'' ''tok'') = Inr True \<and>
   trace (fst (ensureDNSRecord fake_env fresh_world ''zone'' ''a.test'' ''abc123'' ''tok'')) =
     [Request (lookup_request ''zone'' ''a.test'' ''tok''),
      Request (create_request fake_env ''zone'' ''a.test'' ''abc123'' ''tok'')] \<and>
   trace (fst (ensureDNSRecord fake_env
                 (fst (ensureDNSRecord fake_env fresh_world ''zone'' ''a.test'' ''abc123'' ''tok''))
                 ''zone'' ''a.test'' ''abc123'' ''tok'')) =
     [Request (lookup_request ''zone'' ''a.test'' ''tok''),
      Request (create_request fake_env ''zone'' ''a.test'' ''abc123'' ''tok''),
      Request (lookup_request ''zone'' ''a.test'' ''tok'')] \<and>
   snd (ensureDNSRecord fake_env
          (fst (ensureDNSRecord fake_env fresh_world ''zone'' ''a.test'' ''abc123'' ''tok''))
          ''zone'' ''a.test'' ''abc123'' ''tok'') = Inr () \<and>
   create_calls (trace (fst (ensureDNSRecord fake_env
                 (fst (ensureDNSRecord fake_env fresh_world ''zone'' ''a.test'' ''abc123'' ''tok''))
                 ''zone'' ''a.test'' ''abc123'' ''tok''))) \<le> 1 \<and>
   flag_protocol http_flags \<noteq> ''all'' \<and>
   create_calls (trace (fst (main fake_env provisioned_world http_flags))) \<le> 1 \<and>
   create_calls (trace (fst (main_main_go fake_env provisioned_world http_flags))) \<le> 1"
proof -
  let ?w1 = "fst (ensureDNSRecord fake_env fresh_world ''zone'' ''a.test'' ''abc123'' ''tok'')"
  have p: "snd (dnsRecordExists fake_env ?w1 ''zone'' ''a.test'' ''tok'') = Inr True"
    by (simp add: fake_first_call fake_lookup_bound)
  have t: "trace ?w1 = [Request (lookup_request ''zone'' ''a.test'' ''tok''),
      Request (create_request fake_env ''zone'' ''a.test'' ''abc123'' ''tok'')]"
    by (simp add: fake_first_call)
  have c: "create_calls (trace fresh_world) = 0" "create_calls (trace provisioned_world) = 0"
    by (simp_all add: fresh_world_def provisioned_world_def create_calls_def)
  have h: "flag_protocol http_flags \<noteq> ''all''"
    by (simp add: http_flags_def)
  from ensure_record_idempotent [of fake_env fresh_world "''zone''" "''a.test''" "''abc123''" "''tok''"]
    ensure_record_idempotent [of fake_env ?w1 "''zone''" "''a.test''" "''abc123''" "''tok''"]
    ensure_record_idempotent [of fake_env provisioned_world _ _ _ _ http_flags]
    p t c h
  show ?thesis by (simp add: create_calls_def lookup_request_def create_request_def)
qed

end
